(* ===== verification/Wave_Prelude.thy ===== *)
theory Wave_Prelude
  imports Complex_Main
begin

text \<open>
  Shared vocabulary of the NeuroWave development: the scalar interpolation that
  three.js provides (\<open>THREE.MathUtils.lerp\<close>), the closed form of iterating it,
  the "lies between" predicate used by the overshoot lemmas, and the list-heap that
  holds the JavaScript objects shared by reference.  Numbers of the TypeScript code
  (IEEE doubles) are modelled as \<^typ>\<open>real\<close>: rounding is not modelled.
\<close>

named_theorems lerp_simps "facts on linear interpolation used by the render-loop proofs"

section \<open>Linear interpolation\<close>

text \<open>\<open>THREE.MathUtils.lerp(x, y, t)\<close> is \<open>(1 - t) * x + t * y\<close> in three.js.\<close>

definition lerp :: "real \<Rightarrow> real \<Rightarrow> real \<Rightarrow> real" where
  "lerp x y t = (1 - t) * x + t * y"

definition between :: "real \<Rightarrow> real \<Rightarrow> real \<Rightarrow> bool" where
  "between a b v \<longleftrightarrow> min a b \<le> v \<and> v \<le> max a b"

section \<open>Objects shared by reference\<close>

text \<open>
  JavaScript objects that the code shares by reference live in a heap: a list of
  values indexed by location.  Allocation appends; an object is read with \<open>!\<close> and
  written with list update.  A location is valid when it is below the heap's length.
\<close>

type_synonym loc = nat

definition alloc :: "'v \<Rightarrow> 'v list \<Rightarrow> loc \<times> 'v list" where
  "alloc v h = (length h, h @ [v])"

section \<open>Thrown errors as values\<close>

text \<open>
  A computation that may throw is a value of \<open>'e + 'a\<close> (\<open>Inl\<close> the thrown error);
  \<open>res_bind\<close> runs the rest only when nothing was thrown, as a statement sequence does.
\<close>

definition res_bind :: "'e + 'a \<Rightarrow> ('a \<Rightarrow> 'e + 'b) \<Rightarrow> 'e + 'b" where
  "res_bind r f = (case r of Inl e \<Rightarrow> Inl e | Inr a \<Rightarrow> f a)"

section \<open>Lemmas on interpolation\<close>

lemma lerp_same [simp, lerp_simps]: "lerp a a t = a"
  by (simp add: lerp_def algebra_simps)

lemma lerp_gap [lerp_simps]: "y - lerp x y t = (1 - t) * (y - x)"
  by (simp add: lerp_def algebra_simps)

lemma lerp_step_form [lerp_simps]: "lerp x y t = x + (y - x) * t"
  by (simp add: lerp_def algebra_simps)

lemma lerp_between [lerp_simps]:
  assumes "0 \<le> t" and "t \<le> 1"
  shows "between x y (lerp x y t)"
proof -
  have "lerp x y t = x + (y - x) * t" by (rule lerp_step_form)
  moreover have "min x y \<le> x + (y - x) * t \<and> x + (y - x) * t \<le> max x y"
  proof (cases "x \<le> y")
    case True
    then have "0 \<le> (y - x) * t" and "(y - x) * t \<le> y - x"
      using assms by (simp_all add: mult_left_le)
    with True show ?thesis by simp
  next
    case False
    then have "(y - x) * t \<le> 0"
      using assms by (simp add: mult_nonpos_nonneg)
    moreover have "0 \<le> (y - x) * (t - 1)"
      using False assms by (simp add: mult_nonpos_nonpos)
    ultimately show ?thesis using False by (simp add: algebra_simps)
  qed
  ultimately show ?thesis by (simp add: between_def)
qed

lemma lerp_overshoot [lerp_simps]:
  assumes "1 < t" and "x \<noteq> y"
  shows "\<not> between x y (lerp x y t)"
proof (cases "x < y")
  case True
  then have "y - x < (y - x) * t"
    using mult_strict_left_mono [of 1 t "y - x"] assms(1) by simp
  then have "y < lerp x y t" unfolding lerp_step_form by linarith
  then show ?thesis using True by (simp add: between_def)
next
  case False
  with assms(2) have "y < x" by simp
  then have "(y - x) * t < y - x"
    using mult_strict_left_mono_neg [of 1 t "y - x"] assms(1) by simp
  then have "lerp x y t < y" unfolding lerp_step_form by linarith
  then show ?thesis using \<open>y < x\<close> by (simp add: between_def)
qed

text \<open>Iterating the interpolation towards a fixed target shrinks the gap geometrically.\<close>

lemma lerp_funpow_gap [lerp_simps]:
  "y - ((\<lambda>v. lerp v y t) ^^ n) x = (1 - t) ^ n * (y - x)"
proof (induction n)
  case 0
  show ?case by simp
next
  case (Suc n)
  have "y - ((\<lambda>v. lerp v y t) ^^ Suc n) x = (1 - t) * (y - ((\<lambda>v. lerp v y t) ^^ n) x)"
    by (simp add: lerp_gap)
  also have "\<dots> = (1 - t) ^ Suc n * (y - x)"
    using Suc.IH by simp
  finally show ?case .
qed

lemma geometric_gap_tendsto [lerp_simps]:
  fixes t g :: real
  assumes "\<bar>1 - t\<bar> < 1"
  shows "(\<lambda>n. (1 - t) ^ n * g) \<longlonglongrightarrow> 0"
proof -
  have "(\<lambda>n. (1 - t) ^ n) \<longlonglongrightarrow> 0"
    using assms by (rule LIMSEQ_abs_realpow_zero2)
  then show ?thesis
    by (rule tendsto_mult_left_zero)
qed

subsection \<open>Lemmas on thrown errors\<close>

lemma res_bind_simps [simp]:
  "res_bind (Inl e) f = Inl e" "res_bind (Inr a) f = f a"
  by (simp_all add: res_bind_def)

lemma res_bind_Inr_right [simp]: "res_bind r Inr = r"
  by (cases r) simp_all

lemma res_bind_Inr_iff: "res_bind r f = Inr b \<longleftrightarrow> (\<exists>a. r = Inr a \<and> f a = Inr b)"
  by (cases r) simp_all

subsection \<open>Lemmas on the heap\<close>

lemma alloc_fresh [simp]: "fst (alloc v h) = length h"
  by (simp add: alloc_def)

lemma alloc_get_new [simp]: "snd (alloc v h) ! length h = v"
  by (simp add: alloc_def)

lemma alloc_get_old [simp]: "l < length h \<Longrightarrow> snd (alloc v h) ! l = h ! l"
  by (simp add: alloc_def nth_append)

lemma alloc_length [simp]: "length (snd (alloc v h)) = Suc (length h)"
  by (simp add: alloc_def)

end
