(* ===== verification/Wave_Types.thy ===== *)
theory Wave_Types
  imports Wave_Prelude
begin

text \<open>
  The data model of \<open>src/types.ts\<close>.  \<open>WaveConfig\<close> is a record whose
  \<open>frequency\<close> field is itself an object \<open>{x, y}\<close>.  The record is parametrised
  by the type of its numbers, of its frequency field and of its colour, so that the
  same field names serve the typed value (\<open>real\<close>, \<open>real vec2\<close>, \<open>string\<close>),
  the object held in the JavaScript heap (frequency a reference \<open>loc\<close>), the render
  loop's live view (colour an \<open>rgb\<close>) and the untyped object that
  \<open>analyzeThought\<close> builds from parsed JSON (every field a JavaScript value).
\<close>

record 'n vec2 =
  vx :: 'n
  vy :: 'n

record ('n, 'f, 'c) wave_config =
  speed :: 'n
  elevation :: 'n
  frequency :: 'f
  color :: 'c
  roughness :: 'n
  metalness :: 'n

record ('r, 'v) thought_response =
  reply :: 'r
  visualization :: 'v

datatype role = User | Ai

record chat_message =
  msg_role :: role
  content :: string

type_synonym wave_value = "(real, real vec2, string) wave_config"

definition INITIAL_WAVE_CONFIG :: wave_value where
  "INITIAL_WAVE_CONFIG =
     \<lparr>speed = 0.5, elevation = 0.6, frequency = \<lparr>vx = 2, vy = 1.5\<rparr>,
      color = ''#4f46e5'', roughness = 0.2, metalness = 0.8\<rparr>"

text \<open>
  Reading an object-view configuration through the heap gives its value view;
  \<open>map_frequency\<close> changes the type of the \<open>frequency\<close> field.
\<close>

definition map_frequency ::
  "('f \<Rightarrow> 'g) \<Rightarrow> ('n, 'f, 'c) wave_config \<Rightarrow> ('n, 'g, 'c) wave_config" where
  "map_frequency f c =
     \<lparr>speed = speed c, elevation = elevation c, frequency = f (frequency c),
      color = color c, roughness = roughness c, metalness = metalness c\<rparr>"

definition deref :: "'v list \<Rightarrow> ('n, loc, 'c) wave_config \<Rightarrow> ('n, 'v, 'c) wave_config" where
  "deref h c = map_frequency (\<lambda>l. h ! l) c"

lemma map_frequency_sel [simp]:
  "speed (map_frequency f c) = speed c" "elevation (map_frequency f c) = elevation c"
  "frequency (map_frequency f c) = f (frequency c)" "color (map_frequency f c) = color c"
  "roughness (map_frequency f c) = roughness c" "metalness (map_frequency f c) = metalness c"
  by (simp_all add: map_frequency_def)

lemma deref_sel [simp]:
  "speed (deref h c) = speed c" "elevation (deref h c) = elevation c"
  "frequency (deref h c) = h ! frequency c" "color (deref h c) = color c"
  "roughness (deref h c) = roughness c" "metalness (deref h c) = metalness c"
  by (simp_all add: deref_def)

end
