(* ===== verification/Render_Loop.thy ===== *)
theory Render_Loop
  imports Wave_Types
begin

text \<open>
  The render loop of \<open>src/components/WaveScene.tsx\<close>: the uniforms of
  \<open>WaveMaterial\<close>, the \<open>WaveMesh\<close> component's private state (the
  \<open>currentConfig\<close> ref, a shallow copy of the first \<open>config\<close> prop, and the
  material ref), and the \<open>useFrame\<close> callback run once per display refresh.
  The frequency object \<open>{x, y}\<close> is a reference into the heap \<^typ>\<open>real vec2 list\<close>,
  because \<open>{ ...config }\<close> copies the reference and the callback mutates
  \<open>currentConfig.current.frequency.x/y\<close> in place.
  The abstract specification is \<open>interp_step\<close>: every interpolated field moves
  from its live value towards its target by the factor \<open>k\<close>, metalness is copied.
\<close>

section \<open>Colours and uniforms\<close>

text \<open>A \<open>THREE.Color\<close>: three channels; \<open>new THREE.Color()\<close> is white.\<close>

record rgb =
  cr :: real
  cg :: real
  cb :: real

definition color_white :: rgb where
  "color_white = \<lparr>cr = 1, cg = 1, cb = 1\<rparr>"

text \<open>\<open>Color.lerp(color, alpha)\<close> in three.js: \<open>this.r += (color.r - this.r) * alpha\<close>, per channel.\<close>

definition color_lerp :: "rgb \<Rightarrow> rgb \<Rightarrow> real \<Rightarrow> rgb" where
  "color_lerp c t a =
     \<lparr>cr = cr c + (cr t - cr c) * a, cg = cg c + (cg t - cg c) * a,
      cb = cb c + (cb t - cb c) * a\<rparr>"

record uniforms =
  uTime :: real
  uSpeed :: real
  uElevation :: real
  uFrequency :: "real vec2"
  uColor :: rgb
  uMetalness :: real
  uRoughness :: real

text \<open>The \<open>useMemo\<close> initial uniforms of \<open>WaveMaterial\<close>.\<close>

definition initial_uniforms :: uniforms where
  "initial_uniforms =
     \<lparr>uTime = 0, uSpeed = 0, uElevation = 0, uFrequency = \<lparr>vx = 0, vy = 0\<rparr>,
      uColor = color_white, uMetalness = 0.5, uRoughness = 0.5\<rparr>"

section \<open>The mesh component\<close>

type_synonym wave_obj = "(real, loc, string) wave_config"
type_synonym heap = "real vec2 list"

record mesh_state =
  material_attached :: bool
  current_config :: wave_obj
  mat_uniforms :: uniforms

text \<open>
  Mounting \<open>WaveMesh\<close> with prop \<open>config\<close>: \<open>useRef({ ...config })\<close> is a new
  object whose fields are those of \<open>config\<close>; its \<open>frequency\<close> is the same
  reference.  The material ref is \<open>null\<close> until React attaches the material.
\<close>

definition wave_mesh_mount :: "wave_obj \<Rightarrow> mesh_state" where
  "wave_mesh_mount config =
     \<lparr>material_attached = False, current_config = config, mat_uniforms = initial_uniforms\<rparr>"

definition attach_material :: "mesh_state \<Rightarrow> mesh_state" where
  "attach_material m = m\<lparr>material_attached := True\<rparr>"

text \<open>\<open>const lerpFactor = 2.0 * delta\<close>: not clamped.\<close>

definition lerp_factor :: "real \<Rightarrow> real" where
  "lerp_factor delta = 2 * delta"

text \<open>
  The \<open>useFrame((state, delta) => ...)\<close> callback, statement by statement: the
  guard on the material ref, the time uniform, the three scalar lerps on
  \<open>currentConfig.current\<close>, the two in-place writes to its frequency object (the
  second reads the heap after the first), the colour lerp from the current uniform
  colour, and the uniform writes; metalness is taken from \<open>config\<close> directly.
\<close>

definition wave_frame ::
  "(string \<Rightarrow> rgb) \<Rightarrow> real \<Rightarrow> real \<Rightarrow> wave_obj \<Rightarrow> mesh_state \<Rightarrow> heap \<Rightarrow> mesh_state \<times> heap" where
  "wave_frame parse_color elapsed delta config m h =
     (if \<not> material_attached m then (m, h) else
      let u0 = (mat_uniforms m)\<lparr>uTime := elapsed\<rparr>;
          k = lerp_factor delta;
          c0 = current_config m;
          c1 = c0\<lparr>speed := lerp (speed c0) (speed config) k\<rparr>;
          c2 = c1\<lparr>elevation := lerp (elevation c1) (elevation config) k\<rparr>;
          c3 = c2\<lparr>roughness := lerp (roughness c2) (roughness config) k\<rparr>;
          f = frequency c3;
          h1 = h[f := (h ! f)\<lparr>vx := lerp (vx (h ! f)) (vx (h ! frequency config)) k\<rparr>];
          h2 = h1[f := (h1 ! f)\<lparr>vy := lerp (vy (h1 ! f)) (vy (h1 ! frequency config)) k\<rparr>];
          cur_color = color_lerp (uColor u0) (parse_color (color config)) k;
          u1 = u0\<lparr>uSpeed := speed c3, uElevation := elevation c3, uFrequency := h2 ! f,
                  uColor := cur_color, uRoughness := roughness c3,
                  uMetalness := metalness config\<rparr>
      in (m\<lparr>current_config := c3, mat_uniforms := u1\<rparr>, h2))"

text \<open>A run of frames: each frame is \<open>(state.clock.elapsedTime, delta)\<close>.\<close>

fun run_frames ::
  "(string \<Rightarrow> rgb) \<Rightarrow> wave_obj \<Rightarrow> (real \<times> real) list \<Rightarrow> mesh_state \<Rightarrow> heap \<Rightarrow> mesh_state \<times> heap" where
  "run_frames pc config [] m h = (m, h)"
| "run_frames pc config ((t, d) # fs) m h =
     run_frames pc config fs (fst (wave_frame pc t d config m h)) (snd (wave_frame pc t d config m h))"

text \<open>A display refreshing every \<open>dt\<close> seconds: frame \<open>i\<close> at elapsed time \<open>i * dt\<close>.\<close>

definition clock_frames :: "real \<Rightarrow> nat \<Rightarrow> (real \<times> real) list" where
  "clock_frames dt n = map (\<lambda>i. (real i * dt, dt)) [1..<Suc n]"

section \<open>The abstract specification of a frame\<close>

type_synonym live_config = "(real, real vec2, rgb) wave_config"

definition live_of :: "mesh_state \<Rightarrow> heap \<Rightarrow> live_config" where
  "live_of m h =
     \<lparr>speed = speed (current_config m), elevation = elevation (current_config m),
      frequency = h ! frequency (current_config m), color = uColor (mat_uniforms m),
      roughness = roughness (current_config m), metalness = uMetalness (mat_uniforms m)\<rparr>"

definition target_of :: "(string \<Rightarrow> rgb) \<Rightarrow> heap \<Rightarrow> wave_obj \<Rightarrow> live_config" where
  "target_of pc h config =
     \<lparr>speed = speed config, elevation = elevation config,
      frequency = h ! frequency config, color = pc (color config),
      roughness = roughness config, metalness = metalness config\<rparr>"

definition interp_step :: "real \<Rightarrow> live_config \<Rightarrow> live_config \<Rightarrow> live_config" where
  "interp_step k tgt l =
     \<lparr>speed = lerp (speed l) (speed tgt) k, elevation = lerp (elevation l) (elevation tgt) k,
      frequency = \<lparr>vx = lerp (vx (frequency l)) (vx (frequency tgt)) k,
                   vy = lerp (vy (frequency l)) (vy (frequency tgt)) k\<rparr>,
      color = \<lparr>cr = lerp (cr (color l)) (cr (color tgt)) k,
               cg = lerp (cg (color l)) (cg (color tgt)) k,
               cb = lerp (cb (color l)) (cb (color tgt)) k\<rparr>,
      roughness = lerp (roughness l) (roughness tgt) k, metalness = metalness tgt\<rparr>"

text \<open>The interpolated fields of a live configuration (all but metalness).\<close>

definition live_fields :: "(live_config \<Rightarrow> real) list" where
  "live_fields =
     [speed, elevation, roughness, \<lambda>c. vx (frequency c), \<lambda>c. vy (frequency c),
      \<lambda>c. cr (color c), \<lambda>c. cg (color c), \<lambda>c. cb (color c)]"

text \<open>Well-formedness: the live frequency reference points into the heap.\<close>

definition mesh_wf :: "mesh_state \<Rightarrow> heap \<Rightarrow> bool" where
  "mesh_wf m h \<longleftrightarrow> frequency (current_config m) < length h"

section \<open>Concrete states for the witnesses\<close>

text \<open>
  A mounted mesh whose live configuration is the default one, with its own
  frequency object at location 0, and a target whose frequency object is at
  location 1; \<open>demo_parse\<close> stands for \<open>new THREE.Color(string)\<close> on the two
  colours used.
\<close>

definition demo_heap :: heap where
  "demo_heap = [\<lparr>vx = 2, vy = 1.5\<rparr>, \<lparr>vx = 4, vy = 4\<rparr>]"

definition demo_mesh :: mesh_state where
  "demo_mesh =
     \<lparr>material_attached = True,
      current_config = \<lparr>speed = 0.5, elevation = 0.6, frequency = 0, color = ''#4f46e5'',
                        roughness = 0.2, metalness = 0.8\<rparr>,
      mat_uniforms = initial_uniforms\<rparr>"

definition demo_target :: wave_obj where
  "demo_target =
     \<lparr>speed = 1, elevation = 2, frequency = 1, color = ''#ff0000'',
      roughness = 0.9, metalness = 0.1\<rparr>"

definition demo_parse :: "string \<Rightarrow> rgb" where
  "demo_parse s = (if s = ''#ff0000'' then \<lparr>cr = 1, cg = 0, cb = 0\<rparr> else color_white)"

lemmas demo_defs = demo_heap_def demo_mesh_def demo_target_def demo_parse_def
  initial_uniforms_def color_white_def mesh_wf_def live_fields_def

section \<open>Lemmas on one frame\<close>

lemma wave_frame_cur:
  "material_attached m \<Longrightarrow>
   current_config (fst (wave_frame pc t d cfg m h)) =
     (current_config m)\<lparr>speed := lerp (speed (current_config m)) (speed cfg) (lerp_factor d),
        elevation := lerp (elevation (current_config m)) (elevation cfg) (lerp_factor d),
        roughness := lerp (roughness (current_config m)) (roughness cfg) (lerp_factor d)\<rparr>"
  by (simp add: wave_frame_def Let_def)

lemma wave_frame_heap_unaliased:
  assumes "material_attached m" and "frequency (current_config m) < length h"
    and "frequency (current_config m) \<noteq> frequency cfg"
  shows "snd (wave_frame pc t d cfg m h) =
    h[frequency (current_config m) :=
       (h ! frequency (current_config m))\<lparr>
          vx := lerp (vx (h ! frequency (current_config m))) (vx (h ! frequency cfg)) (lerp_factor d),
          vy := lerp (vy (h ! frequency (current_config m))) (vy (h ! frequency cfg)) (lerp_factor d)\<rparr>]"
  using assms by (simp add: wave_frame_def Let_def)

lemma wave_frame_heap_aliased:
  assumes "material_attached m" and "frequency (current_config m) < length h"
    and "frequency (current_config m) = frequency cfg"
  shows "snd (wave_frame pc t d cfg m h) = h"
  using assms by (simp add: wave_frame_def Let_def)

lemma wave_frame_uniforms:
  "material_attached m \<Longrightarrow>
   mat_uniforms (fst (wave_frame pc t d cfg m h)) =
     (mat_uniforms m)\<lparr>uTime := t,
        uSpeed := speed (current_config (fst (wave_frame pc t d cfg m h))),
        uElevation := elevation (current_config (fst (wave_frame pc t d cfg m h))),
        uFrequency := snd (wave_frame pc t d cfg m h) ! frequency (current_config m),
        uColor := color_lerp (uColor (mat_uniforms m)) (pc (color cfg)) (lerp_factor d),
        uRoughness := roughness (current_config (fst (wave_frame pc t d cfg m h))),
        uMetalness := metalness cfg\<rparr>"
  by (simp add: wave_frame_def Let_def)

lemma wave_frame_frame [simp]:
  "material_attached (fst (wave_frame pc t d cfg m h)) = material_attached m"
  "frequency (current_config (fst (wave_frame pc t d cfg m h))) = frequency (current_config m)"
  "length (snd (wave_frame pc t d cfg m h)) = length h"
  by (simp_all add: wave_frame_def Let_def)

lemma color_lerp_lerp:
  "color_lerp c t a = \<lparr>cr = lerp (cr c) (cr t) a, cg = lerp (cg c) (cg t) a, cb = lerp (cb c) (cb t) a\<rparr>"
  by (simp add: color_lerp_def lerp_step_form)

lemma vec2_update_both: "(v::real vec2)\<lparr>vx := a, vy := b\<rparr> = \<lparr>vx = a, vy = b\<rparr>"
  by (cases v) simp

text \<open>One attached, unaliased frame implements \<open>interp_step\<close> with factor \<open>2 * delta\<close>.\<close>

lemma wave_frame_live:
  assumes "material_attached m" and "mesh_wf m h"
    and "frequency (current_config m) \<noteq> frequency cfg"
  shows "live_of (fst (wave_frame pc t d cfg m h)) (snd (wave_frame pc t d cfg m h)) =
         interp_step (lerp_factor d) (target_of pc h cfg) (live_of m h)"
  using assms
  by (simp add: live_of_def interp_step_def target_of_def mesh_wf_def wave_frame_cur
        wave_frame_heap_unaliased wave_frame_uniforms color_lerp_lerp vec2_update_both)

lemma target_of_frame:
  assumes "material_attached m" and "mesh_wf m h"
    and "frequency (current_config m) \<noteq> frequency cfg"
  shows "target_of pc (snd (wave_frame pc t d cfg m h)) cfg = target_of pc h cfg"
  using assms by (simp add: target_of_def mesh_wf_def wave_frame_heap_unaliased)

lemma wave_frame_unaliased_pres:
  assumes "material_attached m" and "mesh_wf m h"
    and "frequency (current_config m) \<noteq> frequency cfg"
  shows "material_attached (fst (wave_frame pc t d cfg m h))"
    and "mesh_wf (fst (wave_frame pc t d cfg m h)) (snd (wave_frame pc t d cfg m h))"
    and "frequency (current_config (fst (wave_frame pc t d cfg m h))) \<noteq> frequency cfg"
  using assms by (simp_all add: mesh_wf_def)

lemma interp_step_field:
  "f \<in> set live_fields \<Longrightarrow> f (interp_step k tgt l) = lerp (f l) (f tgt) k"
  by (auto simp: live_fields_def interp_step_def)

lemma lerp_factor_unit: "0 \<le> d \<Longrightarrow> d \<le> 1 / 2 \<Longrightarrow> 0 \<le> lerp_factor d \<and> lerp_factor d \<le> 1"
  by (simp add: lerp_factor_def)

section \<open>Lemmas on runs of frames\<close>

lemma run_frames_field:
  assumes "material_attached m" and "mesh_wf m h"
    and "frequency (current_config m) \<noteq> frequency cfg"
    and "\<forall>(t, d) \<in> set fs. d = dt" and "f \<in> set live_fields"
  shows "f (live_of (fst (run_frames pc cfg fs m h)) (snd (run_frames pc cfg fs m h))) =
         ((\<lambda>v. lerp v (f (target_of pc h cfg)) (lerp_factor dt)) ^^ length fs) (f (live_of m h))"
  using assms
proof (induction fs arbitrary: m h)
  case Nil
  then show ?case by simp
next
  case (Cons fr fs)
  obtain t d where fr: "fr = (t, d)" by (cases fr)
  with Cons.prems have d: "d = dt" by simp
  let ?m = "fst (wave_frame pc t d cfg m h)" and ?h = "snd (wave_frame pc t d cfg m h)"
  let ?F = "\<lambda>v. lerp v (f (target_of pc h cfg)) (lerp_factor dt)"
  have pre: "material_attached ?m" "mesh_wf ?m ?h" "frequency (current_config ?m) \<noteq> frequency cfg"
    using Cons.prems(1-3) by (rule wave_frame_unaliased_pres)+
  have tgt: "target_of pc ?h cfg = target_of pc h cfg"
    using Cons.prems(1-3) by (rule target_of_frame)
  have one: "f (live_of ?m ?h) = ?F (f (live_of m h))"
    using Cons.prems d by (simp add: wave_frame_live interp_step_field)
  have "f (live_of (fst (run_frames pc cfg fs ?m ?h)) (snd (run_frames pc cfg fs ?m ?h))) =
        (?F ^^ length fs) (f (live_of ?m ?h))"
    using Cons.IH [OF pre] Cons.prems tgt by simp
  also have "\<dots> = (?F ^^ length fs) (?F (f (live_of m h)))"
    by (simp only: one)
  also have "\<dots> = (?F ^^ length (fr # fs)) (f (live_of m h))"
    by (simp only: length_Cons funpow_Suc_right comp_apply)
  finally show ?case
    by (simp only: fr run_frames.simps)
qed

lemma clock_frames_props:
  "length (clock_frames dt n) = n" "\<forall>(t, d) \<in> set (clock_frames dt n). d = dt"
  by (auto simp: clock_frames_def)

lemma clock_frames_gap:
  assumes "material_attached m" and "mesh_wf m h"
    and "frequency (current_config m) \<noteq> frequency cfg" and "f \<in> set live_fields"
  shows "f (target_of pc h cfg) -
           f (live_of (fst (run_frames pc cfg (clock_frames dt n) m h))
                      (snd (run_frames pc cfg (clock_frames dt n) m h))) =
         (1 - 2 * dt) ^ n * (f (target_of pc h cfg) - f (live_of m h))"
  using run_frames_field [OF assms(1-3) clock_frames_props(2) assms(4)]
  by (simp add: clock_frames_props(1) lerp_funpow_gap lerp_factor_def)

lemma frames_120_factor:
  "17 / 1000 \<le> (1 - 2 * (1 / 60 :: real)) ^ 120 \<and> (1 - 2 * (1 / 60 :: real)) ^ 120 \<le> 18 / 1000"
  by (simp add: power_divide)

section \<open>Properties of the render loop\<close>

text \<open>
  C1 (refinement).  While the material is attached and the live frequency object is
  not the target's, any run of frames, whatever the deltas, moves the live
  configuration exactly as the abstract specification does: one \<open>interp_step\<close>
  with factor \<open>2 * delta\<close> per frame, towards the target read before the run.
\<close>
theorem run_frames_refines:
  assumes "material_attached m" and "mesh_wf m h"
    and "frequency (current_config m) \<noteq> frequency cfg"
  shows "live_of (fst (run_frames pc cfg fs m h)) (snd (run_frames pc cfg fs m h)) =
         fold (\<lambda>(t, d). interp_step (lerp_factor d) (target_of pc h cfg)) fs (live_of m h)"
  using assms
proof (induction fs arbitrary: m h)
  case Nil
  then show ?case by simp
next
  case (Cons fr fs)
  obtain t d where fr: "fr = (t, d)" by (cases fr)
  let ?m = "fst (wave_frame pc t d cfg m h)" and ?h = "snd (wave_frame pc t d cfg m h)"
  have pre: "material_attached ?m" "mesh_wf ?m ?h" "frequency (current_config ?m) \<noteq> frequency cfg"
    using Cons.prems by (rule wave_frame_unaliased_pres)+
  have tgt: "target_of pc ?h cfg = target_of pc h cfg"
    using Cons.prems by (rule target_of_frame)
  have one: "live_of ?m ?h = interp_step (lerp_factor d) (target_of pc h cfg) (live_of m h)"
    using Cons.prems by (rule wave_frame_live)
  from Cons.IH [OF pre] show ?case
    by (simp add: fr tgt one)
qed

theorem run_frames_refines_witness:
  "live_of (fst (run_frames demo_parse demo_target [(1 / 60, 1 / 60), (2 / 60, 1 / 60)] demo_mesh demo_heap))
           (snd (run_frames demo_parse demo_target [(1 / 60, 1 / 60), (2 / 60, 1 / 60)] demo_mesh demo_heap)) =
   fold (\<lambda>(t, d). interp_step (lerp_factor d) (target_of demo_parse demo_heap demo_target))
     [(1 / 60 :: real, 1 / 60), (2 / 60, 1 / 60)] (live_of demo_mesh demo_heap)"
  by (rule run_frames_refines) (simp_all add: demo_defs)

text \<open>
  C2 (bounds).  For \<open>0 \<le> delta \<le> 1/2\<close> the factor \<open>2 * delta\<close> lies in
  \<open>[0, 1]\<close>, and every interpolated field (speed, elevation, roughness,
  frequency x and y, the three colour channels) ends the frame between its previous
  value and its target: no overshoot.
\<close>
theorem wave_frame_no_overshoot:
  assumes "material_attached m" and "mesh_wf m h"
    and "frequency (current_config m) \<noteq> frequency cfg"
    and "0 \<le> d" and "d \<le> 1 / 2" and "f \<in> set live_fields"
  shows "between (f (live_of m h)) (f (target_of pc h cfg))
           (f (live_of (fst (wave_frame pc t d cfg m h)) (snd (wave_frame pc t d cfg m h))))"
  using assms by (simp add: wave_frame_live interp_step_field lerp_between lerp_factor_unit)

theorem wave_frame_no_overshoot_witness:
  "between (speed (live_of demo_mesh demo_heap)) (speed (target_of demo_parse demo_heap demo_target))
     (speed (live_of (fst (wave_frame demo_parse 0 (1 / 2) demo_target demo_mesh demo_heap))
                     (snd (wave_frame demo_parse 0 (1 / 2) demo_target demo_mesh demo_heap))))"
  by (rule wave_frame_no_overshoot) (simp_all add: demo_defs)

text \<open>
  C3 (bounds).  The factor is not clamped: for any \<open>delta > 1/2\<close> (a frame after a
  background tab resumes), every interpolated field that is not yet at its target
  ends the frame outside the range between its previous value and its target.
  The spec's promise that a 5-second spike does not overshoot fails: the witness
  takes speed from 0.5 towards 1 with \<open>delta = 5\<close> and lands at 5.5.
\<close>
theorem wave_frame_spike_overshoots:
  assumes "material_attached m" and "mesh_wf m h"
    and "frequency (current_config m) \<noteq> frequency cfg"
    and "1 / 2 < d" and "f \<in> set live_fields"
    and "f (live_of m h) \<noteq> f (target_of pc h cfg)"
  shows "\<not> between (f (live_of m h)) (f (target_of pc h cfg))
           (f (live_of (fst (wave_frame pc t d cfg m h)) (snd (wave_frame pc t d cfg m h))))"
  using assms by (simp add: wave_frame_live interp_step_field lerp_overshoot lerp_factor_def)

theorem wave_frame_spike_overshoots_witness:
  "speed (live_of (fst (wave_frame demo_parse 5 5 demo_target demo_mesh demo_heap))
                  (snd (wave_frame demo_parse 5 5 demo_target demo_mesh demo_heap))) = 5.5 \<and>
   \<not> between (speed (live_of demo_mesh demo_heap)) (speed (target_of demo_parse demo_heap demo_target))
     (speed (live_of (fst (wave_frame demo_parse 5 5 demo_target demo_mesh demo_heap))
                     (snd (wave_frame demo_parse 5 5 demo_target demo_mesh demo_heap))))"
proof
  show "speed (live_of (fst (wave_frame demo_parse 5 5 demo_target demo_mesh demo_heap))
                  (snd (wave_frame demo_parse 5 5 demo_target demo_mesh demo_heap))) = 5.5"
    by (simp add: demo_defs wave_frame_def live_of_def lerp_def lerp_factor_def Let_def)
  show "\<not> between (speed (live_of demo_mesh demo_heap)) (speed (target_of demo_parse demo_heap demo_target))
     (speed (live_of (fst (wave_frame demo_parse 5 5 demo_target demo_mesh demo_heap))
                     (snd (wave_frame demo_parse 5 5 demo_target demo_mesh demo_heap))))"
    by (rule wave_frame_spike_overshoots) (simp_all add: demo_defs live_of_def target_of_def)
qed

text \<open>
  C4 (liveness).  With a display refreshing every \<open>dt\<close> seconds,
  \<open>0 < dt < 1\<close>, and the target held, every interpolated field converges to its
  target as the number of frames grows.
\<close>
theorem clock_frames_converge:
  assumes "material_attached m" and "mesh_wf m h"
    and "frequency (current_config m) \<noteq> frequency cfg"
    and "0 < dt" and "dt < 1" and "f \<in> set live_fields"
  shows "(\<lambda>n. f (live_of (fst (run_frames pc cfg (clock_frames dt n) m h))
                        (snd (run_frames pc cfg (clock_frames dt n) m h))))
           \<longlonglongrightarrow> f (target_of pc h cfg)"
proof -
  let ?y = "f (target_of pc h cfg)" and ?x = "f (live_of m h)"
  have eq: "f (live_of (fst (run_frames pc cfg (clock_frames dt n) m h))
                        (snd (run_frames pc cfg (clock_frames dt n) m h))) =
            ?y - (1 - 2 * dt) ^ n * (?y - ?x)" for n
    using clock_frames_gap [OF assms(1-3) assms(6), of pc dt n] by linarith
  have "\<bar>1 - 2 * dt\<bar> < 1" using assms(4,5) by auto
  then have "(\<lambda>n. (1 - 2 * dt) ^ n * (?y - ?x)) \<longlonglongrightarrow> 0"
    by (rule geometric_gap_tendsto)
  then have "(\<lambda>n. ?y - (1 - 2 * dt) ^ n * (?y - ?x)) \<longlonglongrightarrow> ?y - 0"
    by (intro tendsto_diff tendsto_const)
  then show ?thesis by (simp add: eq)
qed

theorem clock_frames_converge_witness:
  "(\<lambda>n. speed (live_of (fst (run_frames demo_parse demo_target (clock_frames (1 / 60) n) demo_mesh demo_heap))
                        (snd (run_frames demo_parse demo_target (clock_frames (1 / 60) n) demo_mesh demo_heap))))
     \<longlonglongrightarrow> speed (target_of demo_parse demo_heap demo_target)"
  by (rule clock_frames_converge) (simp_all add: demo_defs)

text \<open>
  C5 (safety).  When the live frequency object is the target's own object (as after
  the shallow copy \<open>{ ...config }\<close> while the prop is still that config), a frame
  leaves the heap unchanged: the frequency does not move and the uniform shows the
  frozen value, whatever the delta.
\<close>
theorem wave_frame_aliased_freezes:
  assumes "material_attached m" and "mesh_wf m h"
    and "frequency (current_config m) = frequency cfg"
  shows "snd (wave_frame pc t d cfg m h) = h \<and>
         frequency (live_of (fst (wave_frame pc t d cfg m h)) (snd (wave_frame pc t d cfg m h))) =
         frequency (live_of m h) \<and>
         uFrequency (mat_uniforms (fst (wave_frame pc t d cfg m h))) = frequency (live_of m h)"
  using assms
  by (simp add: wave_frame_heap_aliased wave_frame_uniforms live_of_def mesh_wf_def)

theorem wave_frame_aliased_freezes_witness:
  "snd (wave_frame demo_parse 1 1 (demo_target\<lparr>frequency := 0\<rparr>) demo_mesh demo_heap) = demo_heap \<and>
   frequency (live_of (fst (wave_frame demo_parse 1 1 (demo_target\<lparr>frequency := 0\<rparr>) demo_mesh demo_heap))
      (snd (wave_frame demo_parse 1 1 (demo_target\<lparr>frequency := 0\<rparr>) demo_mesh demo_heap))) =
   frequency (live_of demo_mesh demo_heap) \<and>
   uFrequency (mat_uniforms (fst (wave_frame demo_parse 1 1 (demo_target\<lparr>frequency := 0\<rparr>) demo_mesh demo_heap)))
     = frequency (live_of demo_mesh demo_heap)"
  by (rule wave_frame_aliased_freezes) (simp_all add: demo_defs)

text \<open>
  C6 (bounds).  The spec's scenario: 120 frames at \<open>dt = 1/60\<close> with
  interpolation rate 2 leave between 1.7\<open>%\<close> and 1.8\<open>%\<close> of the initial gap
  (the factor \<open>(29/30)^120\<close>), for every interpolated field.
\<close>
theorem clock_frames_120_frames:
  assumes "material_attached m" and "mesh_wf m h"
    and "frequency (current_config m) \<noteq> frequency cfg" and "f \<in> set live_fields"
  shows "17 / 1000 * \<bar>f (target_of pc h cfg) - f (live_of m h)\<bar> \<le>
           \<bar>f (target_of pc h cfg) -
             f (live_of (fst (run_frames pc cfg (clock_frames (1 / 60) 120) m h))
                        (snd (run_frames pc cfg (clock_frames (1 / 60) 120) m h)))\<bar> \<and>
         \<bar>f (target_of pc h cfg) -
             f (live_of (fst (run_frames pc cfg (clock_frames (1 / 60) 120) m h))
                        (snd (run_frames pc cfg (clock_frames (1 / 60) 120) m h)))\<bar> \<le>
           18 / 1000 * \<bar>f (target_of pc h cfg) - f (live_of m h)\<bar>"
proof -
  let ?g = "\<bar>f (target_of pc h cfg) - f (live_of m h)\<bar>" and ?q = "(1 - 2 * (1 / 60 :: real)) ^ 120"
  have gap: "\<bar>f (target_of pc h cfg) -
             f (live_of (fst (run_frames pc cfg (clock_frames (1 / 60) 120) m h))
                        (snd (run_frames pc cfg (clock_frames (1 / 60) 120) m h)))\<bar> = ?q * ?g"
    using clock_frames_gap [OF assms, of pc "1 / 60" 120] by (simp add: abs_mult)
  from frames_120_factor have q1: "17 / 1000 \<le> ?q" and q2: "?q \<le> 18 / 1000"
    by auto
  have "17 / 1000 * ?g \<le> ?q * ?g" by (rule mult_right_mono [OF q1]) simp
  moreover have "?q * ?g \<le> 18 / 1000 * ?g" by (rule mult_right_mono [OF q2]) simp
  ultimately show ?thesis by (simp only: gap)
qed

theorem clock_frames_120_frames_witness:
  "17 / 1000 * \<bar>speed (target_of demo_parse demo_heap demo_target) - speed (live_of demo_mesh demo_heap)\<bar> \<le>
     \<bar>speed (target_of demo_parse demo_heap demo_target) -
       speed (live_of (fst (run_frames demo_parse demo_target (clock_frames (1 / 60) 120) demo_mesh demo_heap))
                      (snd (run_frames demo_parse demo_target (clock_frames (1 / 60) 120) demo_mesh demo_heap)))\<bar> \<and>
   \<bar>speed (target_of demo_parse demo_heap demo_target) -
       speed (live_of (fst (run_frames demo_parse demo_target (clock_frames (1 / 60) 120) demo_mesh demo_heap))
                      (snd (run_frames demo_parse demo_target (clock_frames (1 / 60) 120) demo_mesh demo_heap)))\<bar> \<le>
     18 / 1000 * \<bar>speed (target_of demo_parse demo_heap demo_target) - speed (live_of demo_mesh demo_heap)\<bar>"
  by (rule clock_frames_120_frames) (simp_all add: demo_defs)

text \<open>
  C7 (functional).  After one attached frame the metalness uniform is the target's
  metalness, with no smoothing; the \<open>currentConfig\<close> ref's own metalness is never
  written by the frame.
\<close>
theorem wave_frame_metalness:
  assumes "material_attached m"
  shows "uMetalness (mat_uniforms (fst (wave_frame pc t d cfg m h))) = metalness cfg \<and>
         metalness (current_config (fst (wave_frame pc t d cfg m h))) = metalness (current_config m)"
  using assms by (simp add: wave_frame_uniforms wave_frame_cur)

theorem wave_frame_metalness_witness:
  "uMetalness (mat_uniforms (fst (wave_frame demo_parse 1 (1 / 60) demo_target demo_mesh demo_heap))) = 0.1 \<and>
   metalness (current_config (fst (wave_frame demo_parse 1 (1 / 60) demo_target demo_mesh demo_heap))) = 0.8"
  using wave_frame_metalness [of demo_mesh demo_parse 1 "1 / 60" demo_target demo_heap]
  by (simp add: demo_defs)

text \<open>
  C8 (functional).  An attached frame writes the clock time and the new live values
  to the uniforms: speed, elevation and roughness of \<open>currentConfig\<close>, the frequency
  object's value after both in-place writes, and the colour lerped from the previous
  uniform colour towards the parsed target colour.
\<close>
theorem wave_frame_uniforms_mirror:
  assumes "material_attached m"
  shows "uTime (mat_uniforms (fst (wave_frame pc t d cfg m h))) = t \<and>
         uSpeed (mat_uniforms (fst (wave_frame pc t d cfg m h))) =
           speed (current_config (fst (wave_frame pc t d cfg m h))) \<and>
         uElevation (mat_uniforms (fst (wave_frame pc t d cfg m h))) =
           elevation (current_config (fst (wave_frame pc t d cfg m h))) \<and>
         uRoughness (mat_uniforms (fst (wave_frame pc t d cfg m h))) =
           roughness (current_config (fst (wave_frame pc t d cfg m h))) \<and>
         uFrequency (mat_uniforms (fst (wave_frame pc t d cfg m h))) =
           snd (wave_frame pc t d cfg m h) ! frequency (current_config (fst (wave_frame pc t d cfg m h))) \<and>
         uColor (mat_uniforms (fst (wave_frame pc t d cfg m h))) =
           color_lerp (uColor (mat_uniforms m)) (pc (color cfg)) (lerp_factor d)"
  using assms by (simp add: wave_frame_uniforms)

theorem wave_frame_uniforms_mirror_witness:
  "uSpeed (mat_uniforms (fst (wave_frame demo_parse 1 (1 / 4) demo_target demo_mesh demo_heap))) = 0.75 \<and>
   uFrequency (mat_uniforms (fst (wave_frame demo_parse 1 (1 / 4) demo_target demo_mesh demo_heap))) =
     \<lparr>vx = 3, vy = 2.75\<rparr>"
  using wave_frame_uniforms_mirror [of demo_mesh demo_parse 1 "1 / 4" demo_target demo_heap]
  by (simp add: demo_defs wave_frame_def Let_def lerp_def lerp_factor_def)

text \<open>
  C9 (functional).  While the material ref is \<open>null\<close> the callback does nothing:
  any run of frames leaves the mesh state and the heap unchanged.
\<close>
theorem run_frames_detached:
  "\<not> material_attached m \<Longrightarrow> run_frames pc cfg fs m h = (m, h)"
  by (induction fs) (auto simp: wave_frame_def)

theorem run_frames_detached_witness:
  "run_frames demo_parse demo_target [(0, 1), (1, 5)] (demo_mesh\<lparr>material_attached := False\<rparr>) demo_heap =
   (demo_mesh\<lparr>material_attached := False\<rparr>, demo_heap)"
  by (rule run_frames_detached) simp

end
