(* ===== verification/Gemini_Service.thy ===== *)
theory Gemini_Service
  imports Wave_Types
begin

text \<open>
  \<open>src/services/geminiService.ts\<close>: the response schema sent to the model, the
  request that \<open>analyzeThought\<close> builds, and the processing of the answer inside its
  \<open>try\<close> block, where every \<open>throw\<close> (a rejected call, an empty answer, a
  \<open>JSON.parse\<close> syntax error, a property read on \<open>undefined\<close> or \<open>null\<close>) is a
  value \<open>Inl e\<close> that the \<open>catch\<close> turns into the fixed fallback response.
  The generative-AI call and \<open>JSON.parse\<close> are library code: they enter as
  parameters \<open>api\<close> and \<open>parse\<close>.  Parsed JSON is a JavaScript value
  \<open>jsval\<close>; the code does not check the shape of what it reads, so the response
  it returns is an untyped \<open>(jsval, jsval vec2, jsval) wave_config\<close>.
\<close>

section \<open>JavaScript values and property access\<close>

datatype jsval =
    JUndefined
  | JNull
  | JBool bool
  | JNum real
  | JStr string
  | JArr "jsval list"
  | JObj "(string \<times> jsval) list"

datatype js_error =
    Api_Error string
  | No_Response
  | Syntax_Error
  | Type_Error string

text \<open>
  An object built by \<open>JSON.parse\<close> keeps the last of duplicate keys.  Reading a
  property of \<open>undefined\<close> or \<open>null\<close> throws a \<open>TypeError\<close>; reading a property
  that is absent gives \<open>undefined\<close>.  The property names the code reads (\<open>reply\<close>,
  \<open>visualization\<close>, \<open>speed\<close>, \<dots>) are not built-in properties of numbers,
  strings, booleans, arrays or \<open>Object.prototype\<close>, so on those values they read
  \<open>undefined\<close>.
\<close>

definition obj_lookup :: "(string \<times> jsval) list \<Rightarrow> string \<Rightarrow> jsval option" where
  "obj_lookup kvs k = map_of (rev kvs) k"

fun js_get :: "jsval \<Rightarrow> string \<Rightarrow> js_error + jsval" where
  "js_get JUndefined k = Inl (Type_Error k)"
| "js_get JNull k = Inl (Type_Error k)"
| "js_get (JObj kvs) k = Inr (case obj_lookup kvs k of None \<Rightarrow> JUndefined | Some v \<Rightarrow> v)"
| "js_get v k = Inr JUndefined"

text \<open>A chain of reads \<open>v.k1.k2\<close>.\<close>

fun js_path :: "jsval \<Rightarrow> string list \<Rightarrow> js_error + jsval" where
  "js_path v [] = Inr v"
| "js_path v (k # ks) = res_bind (js_get v k) (\<lambda>w. js_path w ks)"

definition js_nullish :: "jsval \<Rightarrow> bool" where
  "js_nullish v \<longleftrightarrow> v = JUndefined \<or> v = JNull"

section \<open>The response schema\<close>

datatype schema_type = T_OBJECT | T_NUMBER | T_STRING

datatype schema = Schema schema_type "string option" "(string \<times> schema) list" "string list"

definition visualizationSchema :: schema where
  "visualizationSchema = Schema T_OBJECT None
     [(''speed'', Schema T_NUMBER
         (Some ''Wave animation speed (0.1 to 4.0). Calm=low, Chaotic=high.'') [] []),
      (''elevation'', Schema T_NUMBER
         (Some ''Height of waves (0.2 to 3.0). Low=flat, High=stormy.'') [] []),
      (''frequencyX'', Schema T_NUMBER (Some ''X-axis frequency noise (1.0 to 10.0).'') [] []),
      (''frequencyY'', Schema T_NUMBER (Some ''Y-axis frequency noise (1.0 to 10.0).'') [] []),
      (''color'', Schema T_STRING
         (Some ''Hex color code representing the mood (e.g., #FF0000 for anger, #0000FF for calm).'') [] []),
      (''roughness'', Schema T_NUMBER
         (Some ''Material roughness (0.0 to 1.0). 0=glass/shiny, 1=matte.'') [] []),
      (''metalness'', Schema T_NUMBER (Some ''Material metalness (0.0 to 1.0).'') [] [])]
     [''speed'', ''elevation'', ''frequencyX'', ''frequencyY'', ''color'', ''roughness'', ''metalness'']"

definition responseSchema :: schema where
  "responseSchema = Schema T_OBJECT None
     [(''reply'', Schema T_STRING
         (Some ''A creative, philosophical, or poetic response to the user's input (max 40 words).'') [] []),
      (''visualization'', visualizationSchema)]
     [''reply'', ''visualization'']"

text \<open>
  What an answer that honours a schema looks like: the JSON type matches, every
  required property is present, and every present declared property honours its
  own schema.  The numeric ranges are only in the descriptions: nothing checks them.
\<close>

fun conforms :: "schema \<Rightarrow> jsval \<Rightarrow> bool" where
  "conforms (Schema T_NUMBER d ps req) v = (case v of JNum _ \<Rightarrow> True | _ \<Rightarrow> False)"
| "conforms (Schema T_STRING d ps req) v = (case v of JStr _ \<Rightarrow> True | _ \<Rightarrow> False)"
| "conforms (Schema T_OBJECT d ps req) v =
     (case v of
        JObj kvs \<Rightarrow>
          list_all (\<lambda>k. obj_lookup kvs k \<noteq> None) req \<and>
          list_all (\<lambda>(k, s). case obj_lookup kvs k of None \<Rightarrow> True | Some w \<Rightarrow> conforms s w) ps
      | _ \<Rightarrow> False)"

section \<open>The request\<close>

record gen_request =
  req_model :: string
  req_contents :: string
  req_mime :: string
  req_schema :: schema
  req_system :: string

definition nl :: string where
  "nl = [CHR 0x0A]"

text \<open>The template literal of \<open>prompt\<close>, byte for byte, with \<open>${input}\<close> spliced in.\<close>

definition thought_prompt :: "string \<Rightarrow> string" where
  "thought_prompt input =
     ''Analyze the following user input: \"'' @ input @ ''\". '' @ nl @
     ''    Generate a short, profound, or poetic textual response.'' @ nl @
     ''    Then, translate the sentiment and emotional tone of the text into visual 3D wave parameters.'' @ nl @
     ''    For example: '' @ nl @
     ''    - Anger/Action: Red/Orange, high speed, high elevation, jagged frequency.'' @ nl @
     ''    - Peace/Sadness: Blue/Teal, slow speed, low rolling elevation, smooth frequency.'' @ nl @
     ''    - Joy: Yellow/Pink, medium speed, bouncy.'' @ nl @
     ''    ''"

definition thought_request :: "string \<Rightarrow> gen_request" where
  "thought_request input =
     \<lparr>req_model = ''gemini-2.5-flash'', req_contents = thought_prompt input,
      req_mime = ''application/json'', req_schema = responseSchema,
      req_system = ''You are NeuroWave, a digital consciousness that visualizes human thoughts into 3D mathematical art.''\<rparr>"

section \<open>analyzeThought\<close>

text \<open>What \<open>await ai.models.generateContent(...)\<close> gives: a rejection, or a response whose \<open>text\<close> getter is a string or \<open>undefined\<close>.\<close>

datatype api_outcome = Api_Rejects string | Api_Returns "string option"

type_synonym raw_config = "(jsval, jsval vec2, jsval) wave_config"
type_synonym raw_response = "(jsval, raw_config) thought_response"

text \<open>The body of the \<open>try\<close> block: each statement in order; any throw ends it.\<close>

definition analyze_core ::
  "(gen_request \<Rightarrow> api_outcome) \<Rightarrow> (string \<Rightarrow> jsval option) \<Rightarrow> string \<Rightarrow> js_error + raw_response" where
  "analyze_core api parse input =
     res_bind (case api (thought_request input) of
                 Api_Rejects e \<Rightarrow> Inl (Api_Error e)
               | Api_Returns t \<Rightarrow> Inr t) (\<lambda>text.
     res_bind (case text of
                 None \<Rightarrow> Inl No_Response
               | Some t \<Rightarrow> if t = [] then Inl No_Response else Inr t) (\<lambda>txt.
     res_bind (case parse txt of None \<Rightarrow> Inl Syntax_Error | Some v \<Rightarrow> Inr v) (\<lambda>parsed.
     res_bind (js_path parsed [''reply'']) (\<lambda>r.
     res_bind (js_path parsed [''visualization'', ''speed'']) (\<lambda>sp.
     res_bind (js_path parsed [''visualization'', ''elevation'']) (\<lambda>el.
     res_bind (js_path parsed [''visualization'', ''frequencyX'']) (\<lambda>fx.
     res_bind (js_path parsed [''visualization'', ''frequencyY'']) (\<lambda>fy.
     res_bind (js_path parsed [''visualization'', ''color'']) (\<lambda>co.
     res_bind (js_path parsed [''visualization'', ''roughness'']) (\<lambda>ro.
     res_bind (js_path parsed [''visualization'', ''metalness'']) (\<lambda>me.
     Inr \<lparr>reply = r,
          visualization = \<lparr>speed = sp, elevation = el, frequency = \<lparr>vx = fx, vy = fy\<rparr>,
                           color = co, roughness = ro, metalness = me\<rparr>\<rparr>)))))))))))"

text \<open>The JavaScript object of a typed configuration (numbers and strings as such).\<close>

definition js_of_config :: "wave_value \<Rightarrow> raw_config" where
  "js_of_config c =
     \<lparr>speed = JNum (speed c), elevation = JNum (elevation c),
      frequency = \<lparr>vx = JNum (vx (frequency c)), vy = JNum (vy (frequency c))\<rparr>,
      color = JStr (color c), roughness = JNum (roughness c), metalness = JNum (metalness c)\<rparr>"

definition fallback_reply :: string where
  "fallback_reply = ''My connection to the ether is unstable. I cannot visualize this thought right now.''"

definition fallback_response :: raw_response where
  "fallback_response = \<lparr>reply = JStr fallback_reply, visualization = js_of_config INITIAL_WAVE_CONFIG\<rparr>"

definition analyze_thought ::
  "(gen_request \<Rightarrow> api_outcome) \<Rightarrow> (string \<Rightarrow> jsval option) \<Rightarrow> string \<Rightarrow> raw_response" where
  "analyze_thought api parse input =
     (case analyze_core api parse input of Inl e \<Rightarrow> fallback_response | Inr r \<Rightarrow> r)"

section \<open>Typed views\<close>

fun js_num :: "jsval \<Rightarrow> real option" where
  "js_num (JNum r) = Some r"
| "js_num v = None"

fun js_str :: "jsval \<Rightarrow> string option" where
  "js_str (JStr s) = Some s"
| "js_str v = None"

text \<open>The configuration a raw one stands for, when every field has its declared type.\<close>

definition typed_config :: "raw_config \<Rightarrow> wave_value option" where
  "typed_config c =
     (case (js_num (speed c), js_num (elevation c), js_num (vx (frequency c)),
            js_num (vy (frequency c)), js_str (color c), js_num (roughness c), js_num (metalness c)) of
        (Some s, Some e, Some x, Some y, Some co, Some r, Some m) \<Rightarrow>
          Some \<lparr>speed = s, elevation = e, frequency = \<lparr>vx = x, vy = y\<rparr>, color = co,
                roughness = r, metalness = m\<rparr>
      | _ \<Rightarrow> None)"

text \<open>The JSON a model answer that follows the schema carries, for reply \<open>r\<close> and configuration \<open>c\<close>.\<close>

definition json_of_response :: "string \<Rightarrow> wave_value \<Rightarrow> jsval" where
  "json_of_response r c =
     JObj [(''reply'', JStr r),
           (''visualization'', JObj
              [(''speed'', JNum (speed c)), (''elevation'', JNum (elevation c)),
               (''frequencyX'', JNum (vx (frequency c))), (''frequencyY'', JNum (vy (frequency c))),
               (''color'', JStr (color c)), (''roughness'', JNum (roughness c)),
               (''metalness'', JNum (metalness c))])]"

text \<open>
  When the \<open>try\<close> block throws: the call rejects, the answer has no text or empty
  text, the text is no JSON, the parsed value is \<open>undefined\<close> or \<open>null\<close>, or its
  \<open>visualization\<close> is.
\<close>

definition answer_unusable :: "(gen_request \<Rightarrow> api_outcome) \<Rightarrow> (string \<Rightarrow> jsval option) \<Rightarrow> string \<Rightarrow> bool" where
  "answer_unusable api parse input \<longleftrightarrow>
     (case api (thought_request input) of
        Api_Rejects e \<Rightarrow> True
      | Api_Returns None \<Rightarrow> True
      | Api_Returns (Some t) \<Rightarrow>
          t = [] \<or>
          (case parse t of
             None \<Rightarrow> True
           | Some p \<Rightarrow> js_nullish p \<or> (case js_get p ''visualization'' of Inl e \<Rightarrow> True | Inr v \<Rightarrow> js_nullish v)))"

section \<open>Lemmas on property access and the try block\<close>

lemma js_get_nullish: "(\<exists>e. js_get v k = Inl e) \<longleftrightarrow> js_nullish v"
  by (cases v) (simp_all add: js_nullish_def)

lemma js_get_not_nullish: "\<not> js_nullish v \<Longrightarrow> \<exists>w. js_get v k = Inr w"
  by (cases v) (simp_all add: js_nullish_def)

text \<open>Once the text parses, the block is nine property reads and the object literal.\<close>

lemma analyze_core_parsed:
  assumes "api (thought_request input) = Api_Returns (Some t)" and "t \<noteq> []" and "parse t = Some p"
  shows "analyze_core api parse input =
     res_bind (js_get p ''reply'') (\<lambda>r.
     res_bind (js_get p ''visualization'') (\<lambda>vis.
     res_bind (js_get vis ''speed'') (\<lambda>sp.
     res_bind (js_get vis ''elevation'') (\<lambda>el.
     res_bind (js_get vis ''frequencyX'') (\<lambda>fx.
     res_bind (js_get vis ''frequencyY'') (\<lambda>fy.
     res_bind (js_get vis ''color'') (\<lambda>co.
     res_bind (js_get vis ''roughness'') (\<lambda>ro.
     res_bind (js_get vis ''metalness'') (\<lambda>me.
     Inr \<lparr>reply = r,
          visualization = \<lparr>speed = sp, elevation = el, frequency = \<lparr>vx = fx, vy = fy\<rparr>,
                           color = co, roughness = ro, metalness = me\<rparr>\<rparr>)))))))))"
  using assms
  by (cases "js_get p ''reply''"; cases "js_get p ''visualization''")
     (simp_all add: analyze_core_def)

lemma typed_config_js_of_config: "typed_config (js_of_config c) = Some c"
proof -
  obtain s e f co r m where c: "c = \<lparr>speed = s, elevation = e, frequency = f, color = co,
      roughness = r, metalness = m\<rparr>"
    by (cases c) simp
  obtain x y where f: "f = \<lparr>vx = x, vy = y\<rparr>" by (cases f) simp
  show ?thesis by (simp add: c f typed_config_def js_of_config_def)
qed

lemma conforms_visualization:
  assumes "conforms visualizationSchema v"
  shows "\<exists>vk s e x y co r m. v = JObj vk \<and>
     obj_lookup vk ''speed'' = Some (JNum s) \<and> obj_lookup vk ''elevation'' = Some (JNum e) \<and>
     obj_lookup vk ''frequencyX'' = Some (JNum x) \<and> obj_lookup vk ''frequencyY'' = Some (JNum y) \<and>
     obj_lookup vk ''color'' = Some (JStr co) \<and> obj_lookup vk ''roughness'' = Some (JNum r) \<and>
     obj_lookup vk ''metalness'' = Some (JNum m)"
  using assms
  by (cases v) (auto simp: visualizationSchema_def split: option.splits jsval.splits)

lemma conforms_response:
  assumes "conforms responseSchema p"
  shows "\<exists>kvs r v. p = JObj kvs \<and> obj_lookup kvs ''reply'' = Some (JStr r) \<and>
     obj_lookup kvs ''visualization'' = Some v \<and> conforms visualizationSchema v"
  using assms
  by (cases p) (auto simp: responseSchema_def split: option.splits jsval.splits)

section \<open>Properties of analyzeThought\<close>

text \<open>
  C10 (error).  \<open>analyzeThought\<close> never lets an error escape: on every path where
  the \<open>try\<close> block throws (the call rejects, no or empty text, a syntax error, a
  parsed value or \<open>visualization\<close> that is \<open>undefined\<close> or \<open>null\<close>) it returns
  exactly the fallback reply with \<open>INITIAL_WAVE_CONFIG\<close>; on every other path the
  block completes and its object is returned.
\<close>

theorem analyze_thought_fallback:
  "(answer_unusable api parse input \<longrightarrow> analyze_thought api parse input = fallback_response) \<and>
   (\<not> answer_unusable api parse input \<longrightarrow>
      (\<exists>r. analyze_core api parse input = Inr r \<and> analyze_thought api parse input = r))"
proof (cases "api (thought_request input)")
  case (Api_Rejects e)
  then show ?thesis by (simp add: answer_unusable_def analyze_thought_def analyze_core_def)
next
  case (Api_Returns answer)
  show ?thesis
  proof (cases answer)
    case None
    with Api_Returns show ?thesis by (simp add: answer_unusable_def analyze_thought_def analyze_core_def)
  next
    case (Some t)
    show ?thesis
    proof (cases "t = [] \<or> parse t = None")
      case True
      with Api_Returns Some show ?thesis
        by (auto simp: answer_unusable_def analyze_thought_def analyze_core_def)
    next
      case False
      then obtain p where t: "t \<noteq> []" and p: "parse t = Some p" by auto
      note core = analyze_core_parsed [where api = api and input = input and parse = parse, OF Api_Returns [unfolded Some] t p]
      show ?thesis
      proof (cases "js_nullish p")
        case True
        then have "\<exists>e. js_get p ''reply'' = Inl e" by (simp add: js_get_nullish)
        with True Api_Returns Some t p show ?thesis
          by (auto simp: answer_unusable_def analyze_thought_def core)
      next
        case False
        then obtain r where r: "js_get p ''reply'' = Inr r" using js_get_not_nullish by blast
        from False obtain vis where vis: "js_get p ''visualization'' = Inr vis"
          using js_get_not_nullish by blast
        show ?thesis
        proof (cases "js_nullish vis")
          case True
          then have "\<exists>e. js_get vis ''speed'' = Inl e" by (simp add: js_get_nullish)
          with True \<open>\<not> js_nullish p\<close> Api_Returns Some t p r vis show ?thesis
            by (auto simp: answer_unusable_def analyze_thought_def core)
        next
          case False
          note nn = this
          have all: "\<exists>w. js_get vis k = Inr w" for k using nn by (rule js_get_not_nullish)
          obtain sp el fx fy co ro me where
            "js_get vis ''speed'' = Inr sp" "js_get vis ''elevation'' = Inr el"
            "js_get vis ''frequencyX'' = Inr fx" "js_get vis ''frequencyY'' = Inr fy"
            "js_get vis ''color'' = Inr co" "js_get vis ''roughness'' = Inr ro"
            "js_get vis ''metalness'' = Inr me"
            using all by meson
          with nn \<open>\<not> js_nullish p\<close> Api_Returns Some t p r vis show ?thesis
            by (simp add: answer_unusable_def analyze_thought_def core)
        qed
      qed
    qed
  qed
qed

theorem analyze_thought_fallback_witness:
  "analyze_thought (\<lambda>_. Api_Rejects ''fetch failed'') (\<lambda>_. None) ''I feel calm'' = fallback_response \<and>
   analyze_thought (\<lambda>_. Api_Returns (Some ''ok'')) (\<lambda>_. Some (json_of_response ''Still water.'' INITIAL_WAVE_CONFIG))
     ''I feel calm'' = \<lparr>reply = JStr ''Still water.'', visualization = js_of_config INITIAL_WAVE_CONFIG\<rparr>"
proof
  show "analyze_thought (\<lambda>_. Api_Rejects ''fetch failed'') (\<lambda>_. None) ''I feel calm'' = fallback_response"
    using analyze_thought_fallback [of "\<lambda>_. Api_Rejects ''fetch failed''" "\<lambda>_. None" "''I feel calm''"]
    by (simp add: answer_unusable_def)
  have "\<exists>r. analyze_core (\<lambda>_. Api_Returns (Some ''ok''))
          (\<lambda>_. Some (json_of_response ''Still water.'' INITIAL_WAVE_CONFIG)) ''I feel calm'' = Inr r \<and>
        analyze_thought (\<lambda>_. Api_Returns (Some ''ok''))
          (\<lambda>_. Some (json_of_response ''Still water.'' INITIAL_WAVE_CONFIG)) ''I feel calm'' = r"
    using analyze_thought_fallback [of "\<lambda>_. Api_Returns (Some ''ok'')"
        "\<lambda>_. Some (json_of_response ''Still water.'' INITIAL_WAVE_CONFIG)" "''I feel calm''"]
    by (simp add: answer_unusable_def json_of_response_def obj_lookup_def js_nullish_def)
  then show "analyze_thought (\<lambda>_. Api_Returns (Some ''ok''))
      (\<lambda>_. Some (json_of_response ''Still water.'' INITIAL_WAVE_CONFIG)) ''I feel calm'' =
      \<lparr>reply = JStr ''Still water.'', visualization = js_of_config INITIAL_WAVE_CONFIG\<rparr>"
    by (auto simp: analyze_core_def json_of_response_def obj_lookup_def js_of_config_def
        INITIAL_WAVE_CONFIG_def)
qed

text \<open>
  C11 (roundtrip).  When the model's text parses to the JSON that the schema
  describes for a reply \<open>r\<close> and a configuration \<open>c\<close>, \<open>analyzeThought\<close> returns
  \<open>r\<close> and the object of \<open>c\<close>, from which \<open>c\<close> is read back unchanged
  (\<open>frequencyX/Y\<close> mapped back to \<open>frequency.x/y\<close>).
\<close>

theorem analyze_thought_roundtrip:
  assumes "api (thought_request input) = Api_Returns (Some t)" and "t \<noteq> []"
    and "parse t = Some (json_of_response r c)"
  shows "analyze_thought api parse input = \<lparr>reply = JStr r, visualization = js_of_config c\<rparr> \<and>
         typed_config (visualization (analyze_thought api parse input)) = Some c"
proof -
  have "analyze_thought api parse input = \<lparr>reply = JStr r, visualization = js_of_config c\<rparr>"
    using assms
    by (simp add: analyze_thought_def analyze_core_parsed json_of_response_def obj_lookup_def
        js_of_config_def)
  then show ?thesis by (simp add: typed_config_js_of_config)
qed

theorem analyze_thought_roundtrip_witness:
  "analyze_thought (\<lambda>_. Api_Returns (Some ''ok'')) (\<lambda>_. Some (json_of_response ''Still water.'' INITIAL_WAVE_CONFIG))
     ''I feel calm'' = \<lparr>reply = JStr ''Still water.'', visualization = js_of_config INITIAL_WAVE_CONFIG\<rparr> \<and>
   typed_config (visualization (analyze_thought (\<lambda>_. Api_Returns (Some ''ok''))
     (\<lambda>_. Some (json_of_response ''Still water.'' INITIAL_WAVE_CONFIG)) ''I feel calm'')) = Some INITIAL_WAVE_CONFIG"
  by (rule analyze_thought_roundtrip) simp+

text \<open>
  C12 (type).  When the parsed answer honours \<open>responseSchema\<close> (what the request
  asks of the model), the result is a string reply and the object of a well-typed
  \<open>WaveConfig\<close>, not the fallback path.
\<close>

theorem analyze_thought_schema_typed:
  assumes "api (thought_request input) = Api_Returns (Some t)" and "t \<noteq> []"
    and "parse t = Some p" and "conforms responseSchema p"
  shows "\<exists>r c. analyze_thought api parse input = \<lparr>reply = JStr r, visualization = js_of_config c\<rparr>"
proof -
  obtain kvs r v where p: "p = JObj kvs" and r: "obj_lookup kvs ''reply'' = Some (JStr r)"
    and v: "obj_lookup kvs ''visualization'' = Some v" and cv: "conforms visualizationSchema v"
    using conforms_response [OF assms(4)] by blast
  obtain vk s e x y co ro m where vk: "v = JObj vk"
    and f: "obj_lookup vk ''speed'' = Some (JNum s)" "obj_lookup vk ''elevation'' = Some (JNum e)"
      "obj_lookup vk ''frequencyX'' = Some (JNum x)" "obj_lookup vk ''frequencyY'' = Some (JNum y)"
      "obj_lookup vk ''color'' = Some (JStr co)" "obj_lookup vk ''roughness'' = Some (JNum ro)"
      "obj_lookup vk ''metalness'' = Some (JNum m)"
    using conforms_visualization [OF cv] by blast
  have "analyze_thought api parse input =
        \<lparr>reply = JStr r, visualization = js_of_config
           \<lparr>speed = s, elevation = e, frequency = \<lparr>vx = x, vy = y\<rparr>, color = co,
            roughness = ro, metalness = m\<rparr>\<rparr>"
    using assms(1-3)
    by (simp add: analyze_thought_def analyze_core_parsed p r v vk f js_of_config_def)
  then show ?thesis by blast
qed

theorem analyze_thought_schema_typed_witness:
  "\<exists>r c. analyze_thought (\<lambda>_. Api_Returns (Some ''ok''))
      (\<lambda>_. Some (json_of_response ''Still water.'' INITIAL_WAVE_CONFIG)) ''I feel calm'' =
      \<lparr>reply = JStr r, visualization = js_of_config c\<rparr>"
  by (rule analyze_thought_schema_typed)
     (simp add: json_of_response_def responseSchema_def visualizationSchema_def obj_lookup_def)+

text \<open>
  C13 (error).  The code does not validate the answer: a parsed object whose
  \<open>visualization\<close> is an object without \<open>speed\<close> is not treated as a failure.
  \<open>analyzeThought\<close> returns a configuration whose \<open>speed\<close> is \<open>undefined\<close>,
  which is not a well-typed \<open>WaveConfig\<close> and not the fallback.
\<close>

theorem analyze_thought_accepts_partial:
  assumes "api (thought_request input) = Api_Returns (Some t)" and "t \<noteq> []"
    and "parse t = Some (JObj kvs)" and "obj_lookup kvs ''visualization'' = Some (JObj vk)"
    and "obj_lookup vk ''speed'' = None"
  shows "speed (visualization (analyze_thought api parse input)) = JUndefined \<and>
         typed_config (visualization (analyze_thought api parse input)) = None \<and>
         analyze_thought api parse input \<noteq> fallback_response"
proof -
  have sp: "speed (visualization (analyze_thought api parse input)) = JUndefined"
    using assms
    by (simp add: analyze_thought_def analyze_core_parsed)
  then have "typed_config (visualization (analyze_thought api parse input)) = None"
    by (simp add: typed_config_def)
  moreover have "analyze_thought api parse input \<noteq> fallback_response"
    using sp by (auto simp: fallback_response_def js_of_config_def)
  ultimately show ?thesis using sp by blast
qed

theorem analyze_thought_accepts_partial_witness:
  "speed (visualization (analyze_thought (\<lambda>_. Api_Returns (Some ''ok'')) (\<lambda>_. Some (JObj [(''visualization'', JObj [])]))
      ''I feel calm'')) = JUndefined \<and>
   typed_config (visualization (analyze_thought (\<lambda>_. Api_Returns (Some ''ok''))
      (\<lambda>_. Some (JObj [(''visualization'', JObj [])])) ''I feel calm'')) = None \<and>
   analyze_thought (\<lambda>_. Api_Returns (Some ''ok'')) (\<lambda>_. Some (JObj [(''visualization'', JObj [])])) ''I feel calm''
     \<noteq> fallback_response"
  by (rule analyze_thought_accepts_partial) (simp add: obj_lookup_def)+

end
