(* ===== verification/App_State.thy ===== *)
theory App_State
  imports Render_Loop Gemini_Service
begin

text \<open>
  \<open>src/App.tsx\<close> and \<open>src/components/Interface.tsx\<close>, composed with the render
  loop.  The App holds \<open>waveConfig\<close> (a reference to a \<open>WaveConfig\<close> object),
  \<open>isLoading\<close> and \<open>latestResponse\<close>; the Interface holds \<open>inputText\<close> and
  \<open>expanded\<close>.  \<open>handleThoughtSubmit\<close> is asynchronous: its part up to the
  \<open>await\<close> runs on submit, its continuation when \<open>analyzeThought\<close> settles.  The
  whole page is a state machine \<open>sys_step\<close> whose events are React attaching the
  material, typing, submitting, the analysis settling, and display frames, in any
  interleaving.  Objects are heap references: \<open>INITIAL_WAVE_CONFIG\<close> is one object
  whose frequency object is at location 0; a successful analysis allocates a fresh one.
\<close>

section \<open>The Interface component\<close>

text \<open>\<open>String.prototype.trim\<close> on ASCII white space and line terminators.\<close>

definition is_js_space :: "char \<Rightarrow> bool" where
  "is_js_space c \<longleftrightarrow>
     c \<in> set [CHR 0x20, CHR 0x09, CHR 0x0A, CHR 0x0B, CHR 0x0C, CHR 0x0D]"

definition js_trim :: "string \<Rightarrow> string" where
  "js_trim s = rev (dropWhile is_js_space (rev (dropWhile is_js_space s)))"

text \<open>JavaScript truthiness (\<open>NaN\<close> is not a value of the model).\<close>

fun js_truthy :: "jsval \<Rightarrow> bool" where
  "js_truthy JUndefined = False"
| "js_truthy JNull = False"
| "js_truthy (JBool b) = b"
| "js_truthy (JNum r) = (r \<noteq> 0)"
| "js_truthy (JStr s) = (s \<noteq> [])"
| "js_truthy (JArr vs) = True"
| "js_truthy (JObj kvs) = True"

record ui_state =
  inputText :: string
  expanded :: bool

text \<open>The early return of \<open>handleSubmit\<close>: \<open>if (!inputText.trim() || isLoading) return\<close>.\<close>

definition submit_guard :: "string \<Rightarrow> bool \<Rightarrow> bool" where
  "submit_guard txt loading \<longleftrightarrow> \<not> (js_trim txt = [] \<or> loading)"

section \<open>The App component\<close>

record app_state =
  waveConfig :: wave_obj
  isLoading :: bool
  latestResponse :: jsval

text \<open>The \<open>INITIAL_WAVE_CONFIG\<close> object: its frequency object is at location 0.\<close>

definition initial_obj :: wave_obj where
  "initial_obj = map_frequency (\<lambda>_. 0) INITIAL_WAVE_CONFIG"

definition initial_heap :: heap where
  "initial_heap = [frequency INITIAL_WAVE_CONFIG]"

definition app_init :: app_state where
  "app_init = \<lparr>waveConfig = initial_obj, isLoading = False, latestResponse = JNull\<rparr>"

definition static_reply :: string where
  "static_reply = ''I encountered static in the connection.''"

text \<open>
  The continuation of \<open>handleThoughtSubmit\<close> after the \<open>await\<close>: on a value,
  \<open>setWaveConfig(response.visualization)\<close> and \<open>setLatestResponse(response.reply)\<close>;
  on a rejection the \<open>catch\<close> message; in both cases the \<open>finally\<close>.
\<close>

definition thought_settled :: "js_error + (jsval \<times> wave_obj) \<Rightarrow> app_state \<Rightarrow> app_state" where
  "thought_settled res a =
     (case res of
        Inr (rep, obj) \<Rightarrow> a\<lparr>waveConfig := obj, latestResponse := rep\<rparr>
      | Inl e \<Rightarrow> a\<lparr>latestResponse := JStr static_reply\<rparr>)\<lparr>isLoading := False\<rparr>"

text \<open>
  The object \<open>analyzeThought\<close> resolves to: after a throw, the literal whose
  \<open>visualization\<close> is the \<open>INITIAL_WAVE_CONFIG\<close> object itself; otherwise a fresh
  object literal with a fresh frequency object.  An answer whose fields are not
  numbers and a string (see \<open>analyze_thought_accepts_partial\<close>) would reach the
  render loop as \<open>undefined\<close>; such answers are outside this model (\<open>None\<close>).
\<close>

definition response_object :: "js_error + raw_response \<Rightarrow> heap \<Rightarrow> (jsval \<times> wave_obj \<times> heap) option" where
  "response_object res h =
     (case res of
        Inl e \<Rightarrow> Some (JStr fallback_reply, initial_obj, h)
      | Inr r \<Rightarrow>
          (case typed_config (visualization r) of
             None \<Rightarrow> None
           | Some v \<Rightarrow> Some (reply r, map_frequency (\<lambda>_. length h) v, snd (alloc (frequency v) h))))"

section \<open>The page as a state machine\<close>

record sys_state =
  app :: app_state
  ui :: ui_state
  mesh :: mesh_state
  heap :: heap
  pending :: "string option"

definition sys_init :: sys_state where
  "sys_init =
     \<lparr>app = app_init, ui = \<lparr>inputText = [], expanded = False\<rparr>,
      mesh = wave_mesh_mount initial_obj, heap = initial_heap, pending = None\<rparr>"

text \<open>The \<open>onChange\<close> of the input, which is \<open>disabled={isLoading}\<close>.\<close>

definition ui_type :: "string \<Rightarrow> sys_state \<Rightarrow> sys_state" where
  "ui_type str s = (if isLoading (app s) then s else s\<lparr>ui := (ui s)\<lparr>inputText := str\<rparr>\<rparr>)"

text \<open>
  \<open>handleSubmit\<close> up to its \<open>await\<close>: the guard, then \<open>handleThoughtSubmit\<close> up
  to its \<open>await\<close> (\<open>setIsLoading(true)\<close>, \<open>setLatestResponse(null)\<close>, and the
  call \<open>analyzeThought(inputText)\<close> left outstanding).
\<close>

definition handle_submit :: "sys_state \<Rightarrow> sys_state" where
  "handle_submit s =
     (if \<not> submit_guard (inputText (ui s)) (isLoading (app s)) then s
      else s\<lparr>app := (app s)\<lparr>isLoading := True, latestResponse := JNull\<rparr>,
             pending := Some (inputText (ui s))\<rparr>)"

text \<open>
  The outstanding call settles: \<open>analyzeThought\<close>'s result (it never rejects), the
  continuation of \<open>handleThoughtSubmit\<close>, then \<open>handleSubmit\<close>'s
  \<open>setInputText('')\<close> and the Interface's effect on \<open>latestResponse\<close>.
\<close>

definition complete_analysis ::
  "(gen_request \<Rightarrow> api_outcome) \<Rightarrow> (string \<Rightarrow> jsval option) \<Rightarrow> sys_state \<Rightarrow> sys_state option" where
  "complete_analysis api parse s =
     (case pending s of
        None \<Rightarrow> None
      | Some inp \<Rightarrow>
          (case response_object (analyze_core api parse inp) (heap s) of
             None \<Rightarrow> None
           | Some (rep, obj, h) \<Rightarrow>
               Some (s\<lparr>app := thought_settled (Inr (rep, obj)) (app s), heap := h, pending := None,
                       ui := (ui s)\<lparr>inputText := [], expanded := expanded (ui s) \<or> js_truthy rep\<rparr>\<rparr>)))"

definition sys_attach :: "sys_state \<Rightarrow> sys_state" where
  "sys_attach s = s\<lparr>mesh := attach_material (mesh s)\<rparr>"

definition sys_frame :: "(string \<Rightarrow> rgb) \<Rightarrow> real \<Rightarrow> real \<Rightarrow> sys_state \<Rightarrow> sys_state" where
  "sys_frame pc t d s =
     s\<lparr>mesh := fst (wave_frame pc t d (waveConfig (app s)) (mesh s) (heap s)),
       heap := snd (wave_frame pc t d (waveConfig (app s)) (mesh s) (heap s))\<rparr>"

inductive sys_step :: "(string \<Rightarrow> rgb) \<Rightarrow> sys_state \<Rightarrow> sys_state \<Rightarrow> bool" for pc where
  attach: "sys_step pc s (sys_attach s)"
| type: "sys_step pc s (ui_type str s)"
| submit: "sys_step pc s (handle_submit s)"
| complete: "complete_analysis api parse s = Some s' \<Longrightarrow> sys_step pc s s'"
| frame: "0 \<le> d \<Longrightarrow> sys_step pc s (sys_frame pc t d s)"

inductive reachable :: "(string \<Rightarrow> rgb) \<Rightarrow> sys_state \<Rightarrow> bool" for pc where
  init: "reachable pc sys_init"
| step: "reachable pc s \<Longrightarrow> sys_step pc s s' \<Longrightarrow> reachable pc s'"

text \<open>
  The same machine as a function of named events, so that a concrete run evaluates;
  \<open>Settle api parse\<close> is the outstanding call settling with the given service
  behaviour.
\<close>

datatype event =
    Attach
  | Type string
  | Submit
  | Settle "gen_request \<Rightarrow> api_outcome" "string \<Rightarrow> jsval option"
  | Frame real real

fun sys_event :: "(string \<Rightarrow> rgb) \<Rightarrow> event \<Rightarrow> sys_state \<Rightarrow> sys_state option" where
  "sys_event pc Attach s = Some (sys_attach s)"
| "sys_event pc (Type str) s = Some (ui_type str s)"
| "sys_event pc Submit s = Some (handle_submit s)"
| "sys_event pc (Settle api parse) s = complete_analysis api parse s"
| "sys_event pc (Frame t d) s = (if 0 \<le> d then Some (sys_frame pc t d s) else None)"

fun run_events :: "(string \<Rightarrow> rgb) \<Rightarrow> event list \<Rightarrow> sys_state \<Rightarrow> sys_state option" where
  "run_events pc [] s = Some s"
| "run_events pc (e # es) s =
     (case sys_event pc e s of None \<Rightarrow> None | Some s' \<Rightarrow> run_events pc es s')"

text \<open>
  What every reachable state keeps: a call is outstanding exactly while loading; the
  live frequency reference of the mesh is location 0 (the \<open>INITIAL_WAVE_CONFIG\<close>
  frequency object); the App's config is the \<open>INITIAL_WAVE_CONFIG\<close> object or a
  later one with its own frequency object; every reference points into the heap.
\<close>

definition sys_inv :: "sys_state \<Rightarrow> bool" where
  "sys_inv s \<longleftrightarrow>
     (isLoading (app s) \<longleftrightarrow> pending s \<noteq> None) \<and>
     frequency (current_config (mesh s)) = 0 \<and>
     0 < length (heap s) \<and>
     frequency (waveConfig (app s)) < length (heap s) \<and>
     (waveConfig (app s) = initial_obj \<or> 0 < frequency (waveConfig (app s)))"

section \<open>Lemmas: the invariant, one event at a time\<close>

lemma sys_inv_init: "sys_inv sys_init"
  by (simp add: sys_inv_def sys_init_def app_init_def initial_obj_def initial_heap_def
      wave_mesh_mount_def)

lemma sys_inv_attach: "sys_inv s \<Longrightarrow> sys_inv (sys_attach s)"
  by (simp add: sys_inv_def sys_attach_def attach_material_def)

lemma sys_inv_type: "sys_inv s \<Longrightarrow> sys_inv (ui_type str s)"
  by (simp add: sys_inv_def ui_type_def)

lemma sys_inv_submit: "sys_inv s \<Longrightarrow> sys_inv (handle_submit s)"
  by (auto simp: sys_inv_def handle_submit_def)

lemma sys_inv_frame: "sys_inv s \<Longrightarrow> sys_inv (sys_frame pc t d s)"
  by (simp add: sys_inv_def sys_frame_def)

lemma response_object_shape:
  assumes "response_object res h = Some (rep, obj, h')" and "0 < length h"
  shows "(obj = initial_obj \<and> h' = h) \<or>
         (frequency obj = length h \<and> length h' = Suc (length h))"
  using assms
  by (auto simp: response_object_def split: sum.splits option.splits)

lemma sys_inv_complete:
  assumes "complete_analysis api parse s = Some s'" and "sys_inv s"
  shows "sys_inv s'"
proof -
  from assms(1) obtain inp rep obj h where p: "pending s = Some inp"
    and r: "response_object (analyze_core api parse inp) (heap s) = Some (rep, obj, h)"
    and s': "s' = s\<lparr>app := thought_settled (Inr (rep, obj)) (app s), heap := h, pending := None,
                    ui := (ui s)\<lparr>inputText := [], expanded := expanded (ui s) \<or> js_truthy rep\<rparr>\<rparr>"
    by (auto simp: complete_analysis_def split: option.splits)
  have len: "0 < length (heap s)" using assms(2) by (simp add: sys_inv_def)
  from response_object_shape [OF r len]
  have "(obj = initial_obj \<and> h = heap s) \<or> (frequency obj = length (heap s) \<and> length h = Suc (length (heap s)))" .
  then show ?thesis
    using assms(2) len by (auto simp: s' sys_inv_def thought_settled_def initial_obj_def)
qed

lemma sys_step_inv: "sys_step pc s s' \<Longrightarrow> sys_inv s \<Longrightarrow> sys_inv s'"
proof (induction rule: sys_step.induct)
  case (attach s) then show ?case by (rule sys_inv_attach)
next
  case (type s str) then show ?case by (rule sys_inv_type)
next
  case (submit s) then show ?case by (rule sys_inv_submit)
next
  case (complete api parse s s') then show ?case by (rule sys_inv_complete)
next
  case (frame d s t) then show ?case by (simp add: sys_inv_frame)
qed

lemma reachable_sys_inv: "reachable pc s \<Longrightarrow> sys_inv s"
proof (induction rule: reachable.induct)
  case init then show ?case by (rule sys_inv_init)
next
  case (step s s') then show ?case by (blast intro: sys_step_inv)
qed

section \<open>Lemmas on events, runs and the input guard\<close>

lemma sys_event_step: "sys_event pc e s = Some s' \<Longrightarrow> sys_step pc s s'"
  by (cases e) (auto intro: sys_step.intros split: if_splits)

lemma run_events_reachable:
  "run_events pc es s = Some s' \<Longrightarrow> reachable pc s \<Longrightarrow> reachable pc s'"
proof (induction es arbitrary: s)
  case Nil then show ?case by simp
next
  case (Cons e es)
  then obtain s1 where e: "sys_event pc e s = Some s1" and r: "run_events pc es s1 = Some s'"
    by (auto split: option.splits)
  from Cons.prems(2) sys_event_step [OF e] have "reachable pc s1" by (rule reachable.step)
  with r show ?case by (rule Cons.IH)
qed

lemma js_trim_Nil_iff: "js_trim s = [] \<longleftrightarrow> list_all is_js_space s"
proof -
  have "js_trim s = [] \<longleftrightarrow> (\<forall>x \<in> set (dropWhile is_js_space s). is_js_space x)"
    by (simp add: js_trim_def dropWhile_eq_Nil_conv)
  also have "\<dots> \<longleftrightarrow> (\<forall>x \<in> set s. is_js_space x)"
    by (metis Un_iff set_append set_takeWhileD takeWhile_dropWhile_id set_dropWhileD)
  finally show ?thesis by (simp add: list_all_iff)
qed

lemma demo_submitted:
  "\<exists>s. run_events pc [Attach, Type ''I feel calm'', Submit] sys_init = Some s \<and> pending s = Some ''I feel calm''"
  by (simp add: sys_init_def app_init_def sys_attach_def ui_type_def handle_submit_def submit_guard_def
      js_trim_def is_js_space_def)

section \<open>Properties of the App and the Interface\<close>

text \<open>
  C14 (safety).  In every reachable state, while an analysis is outstanding the App
  is loading, and neither a submit nor typing changes anything: there is never a
  second request in flight.
\<close>

theorem no_double_submit:
  assumes "reachable pc s" and "pending s \<noteq> None"
  shows "isLoading (app s) \<and> handle_submit s = s \<and> ui_type str s = s"
proof -
  from reachable_sys_inv [OF assms(1)] assms(2) have "isLoading (app s)"
    by (simp add: sys_inv_def)
  then show ?thesis by (simp add: handle_submit_def submit_guard_def ui_type_def)
qed

theorem no_double_submit_witness:
  "\<exists>s. reachable (\<lambda>_. color_white) s \<and> pending s \<noteq> None \<and>
       isLoading (app s) \<and> handle_submit s = s \<and> ui_type ''again'' s = s"
proof -
  obtain s where run: "run_events (\<lambda>_. color_white) [Attach, Type ''I feel calm'', Submit] sys_init = Some s"
    and p: "pending s = Some ''I feel calm''"
    using demo_submitted by blast
  have r: "reachable (\<lambda>_. color_white) s" using run_events_reachable [OF run reachable.init] .
  have "pending s \<noteq> None" using p by simp
  with r show ?thesis using no_double_submit [OF r, of "''again''"] by blast
qed

text \<open>
  C15 (functional).  \<open>handleSubmit\<close> changes the page exactly when no analysis is
  loading and the input has a character that \<open>trim\<close> keeps; it then sets
  \<open>isLoading\<close>, clears \<open>latestResponse\<close> and sends the untrimmed input.
\<close>

theorem handle_submit_guard:
  "(handle_submit s \<noteq> s \<longleftrightarrow>
      \<not> isLoading (app s) \<and> (\<exists>c \<in> set (inputText (ui s)). \<not> is_js_space c)) \<and>
   (\<not> isLoading (app s) \<and> (\<exists>c \<in> set (inputText (ui s)). \<not> is_js_space c) \<longrightarrow>
      pending (handle_submit s) = Some (inputText (ui s)) \<and> isLoading (app (handle_submit s)) \<and>
      latestResponse (app (handle_submit s)) = JNull)"
proof (cases "\<not> isLoading (app s) \<and> (\<exists>c \<in> set (inputText (ui s)). \<not> is_js_space c)")
  case True
  then have g: "submit_guard (inputText (ui s)) (isLoading (app s))"
    by (auto simp: submit_guard_def js_trim_Nil_iff list_all_iff)
  have "isLoading (app (handle_submit s))" using g by (simp add: handle_submit_def)
  then have "handle_submit s \<noteq> s" using True by auto
  with True g show ?thesis by (simp add: handle_submit_def)
next
  case False
  then have "\<not> submit_guard (inputText (ui s)) (isLoading (app s))"
    by (auto simp: submit_guard_def js_trim_Nil_iff list_all_iff)
  with False show ?thesis by (simp add: handle_submit_def)
qed

theorem handle_submit_guard_witness:
  "handle_submit (sys_init\<lparr>ui := \<lparr>inputText = '' '', expanded = False\<rparr>\<rparr>) =
     sys_init\<lparr>ui := \<lparr>inputText = '' '', expanded = False\<rparr>\<rparr> \<and>
   pending (handle_submit (sys_init\<lparr>ui := \<lparr>inputText = '' calm '', expanded = False\<rparr>\<rparr>)) = Some '' calm ''"
proof
  show "handle_submit (sys_init\<lparr>ui := \<lparr>inputText = '' '', expanded = False\<rparr>\<rparr>) =
     sys_init\<lparr>ui := \<lparr>inputText = '' '', expanded = False\<rparr>\<rparr>"
    using handle_submit_guard [of "sys_init\<lparr>ui := \<lparr>inputText = '' '', expanded = False\<rparr>\<rparr>"]
    by (simp add: is_js_space_def)
  show "pending (handle_submit (sys_init\<lparr>ui := \<lparr>inputText = '' calm '', expanded = False\<rparr>\<rparr>)) = Some '' calm ''"
    using handle_submit_guard [of "sys_init\<lparr>ui := \<lparr>inputText = '' calm '', expanded = False\<rparr>\<rparr>"]
    by (simp add: is_js_space_def sys_init_def app_init_def)
qed

text \<open>
  C16 (error).  When the outstanding analysis ends in the service's fallback, the
  App's \<open>waveConfig\<close> becomes the \<open>INITIAL_WAVE_CONFIG\<close> object itself and
  \<open>latestResponse\<close> the fallback reply; loading ends, the input is cleared, the
  response panel expands, and neither the heap nor the mesh changes.
\<close>

theorem complete_analysis_fallback:
  assumes "pending s = Some inp" and "analyze_core api parse inp = Inl e"
  shows "\<exists>s'. complete_analysis api parse s = Some s' \<and>
     waveConfig (app s') = initial_obj \<and> latestResponse (app s') = JStr fallback_reply \<and>
     \<not> isLoading (app s') \<and> pending s' = None \<and> inputText (ui s') = [] \<and> expanded (ui s') \<and>
     heap s' = heap s \<and> mesh s' = mesh s"
  using assms
  by (simp add: complete_analysis_def response_object_def thought_settled_def fallback_reply_def)

theorem complete_analysis_fallback_witness:
  "\<exists>s'. complete_analysis (\<lambda>_. Api_Rejects ''fetch failed'') (\<lambda>_. None)
        (sys_init\<lparr>pending := Some ''calm''\<rparr>) = Some s' \<and>
     waveConfig (app s') = initial_obj \<and> latestResponse (app s') = JStr fallback_reply \<and>
     \<not> isLoading (app s') \<and> pending s' = None \<and> inputText (ui s') = [] \<and> expanded (ui s') \<and>
     heap s' = heap (sys_init\<lparr>pending := Some ''calm''\<rparr>) \<and> mesh s' = mesh (sys_init\<lparr>pending := Some ''calm''\<rparr>)"
  by (rule complete_analysis_fallback [where e = "Api_Error ''fetch failed''"])
     (simp add: analyze_core_def)+

text \<open>
  C17 (functional).  When the outstanding analysis returns an answer whose
  configuration is well typed, \<open>waveConfig\<close> is replaced wholesale by a fresh object
  (a new frequency object at the end of the heap) that reads back as the answer's
  configuration; every existing object, the live frequency object included, is left
  as it was, the mesh is untouched until the next frame, \<open>latestResponse\<close> is the
  answer's reply, loading ends and the input is cleared.
\<close>

theorem complete_analysis_success:
  assumes "pending s = Some inp" and "analyze_core api parse inp = Inr r"
    and "typed_config (visualization r) = Some v"
  shows "\<exists>s'. complete_analysis api parse s = Some s' \<and>
     deref (heap s') (waveConfig (app s')) = v \<and> frequency (waveConfig (app s')) = length (heap s) \<and>
     (\<forall>l < length (heap s). heap s' ! l = heap s ! l) \<and> mesh s' = mesh s \<and>
     latestResponse (app s') = reply r \<and> \<not> isLoading (app s') \<and> pending s' = None \<and>
     inputText (ui s') = []"
proof -
  have d: "deref (snd (alloc (frequency v) (heap s))) (map_frequency (\<lambda>_. length (heap s)) v) = v"
    by (cases v) (simp add: deref_def map_frequency_def alloc_def)
  show ?thesis
    using assms d
    by (simp add: complete_analysis_def response_object_def thought_settled_def)
qed

theorem complete_analysis_success_witness:
  "\<exists>s'. complete_analysis (\<lambda>_. Api_Returns (Some ''ok''))
          (\<lambda>_. Some (json_of_response ''Still.'' INITIAL_WAVE_CONFIG))
          (sys_init\<lparr>pending := Some ''calm''\<rparr>) = Some s' \<and>
     deref (heap s') (waveConfig (app s')) = INITIAL_WAVE_CONFIG \<and>
     frequency (waveConfig (app s')) = 1 \<and> heap s' ! 0 = heap sys_init ! 0 \<and>
     latestResponse (app s') = JStr ''Still.''"
proof -
  have core: "analyze_core (\<lambda>_. Api_Returns (Some ''ok'')) (\<lambda>_. Some (json_of_response ''Still.'' INITIAL_WAVE_CONFIG)) ''calm'' =
      Inr \<lparr>reply = JStr ''Still.'', visualization = js_of_config INITIAL_WAVE_CONFIG\<rparr>"
    by (simp add: analyze_core_def json_of_response_def obj_lookup_def js_of_config_def)
  have ty: "typed_config (visualization \<lparr>reply = JStr ''Still.'', visualization = js_of_config INITIAL_WAVE_CONFIG\<rparr>) =
      Some INITIAL_WAVE_CONFIG"
    by (simp add: typed_config_js_of_config)
  have len: "length (heap (sys_init\<lparr>pending := Some ''calm''\<rparr>)) = 1"
    by (simp add: sys_init_def initial_heap_def)
  show ?thesis
    using complete_analysis_success [OF _ core ty, of "sys_init\<lparr>pending := Some ''calm''\<rparr>"] len
    by fastforce
qed

end
