(* ===== verification/Interface_View.thy ===== *)
theory Interface_View
  imports App_State
begin

text \<open>
  What the Interface of \<open>src/components/Interface.tsx\<close> renders (its JSX, lines
  30 to 103) as a function of its state and props: the status indicator, the
  response area with the text React makes of \<open>latestResponse\<close>, the input and the
  submit button.  Class names and texts are those of the source; layout-only
  classes and the icons' styling are not modelled.  React's rendering of a value as
  a child (\<open>react_child\<close>) is modelled from React's semantics: \<open>null\<close>,
  \<open>undefined\<close> and booleans render nothing, strings and numbers render as text,
  arrays render their elements, and a plain object throws.
\<close>

section \<open>React children\<close>

datatype piece = PText string | PNum real

fun react_child :: "jsval \<Rightarrow> js_error + piece list"
  and react_children :: "jsval list \<Rightarrow> js_error + piece list" where
  "react_child JUndefined = Inr []"
| "react_child JNull = Inr []"
| "react_child (JBool b) = Inr []"
| "react_child (JNum r) = Inr [PNum r]"
| "react_child (JStr s) = Inr [PText s]"
| "react_child (JArr vs) = react_children vs"
| "react_child (JObj kvs) = Inl (Type_Error ''Objects are not valid as a React child'')"
| "react_children [] = Inr []"
| "react_children (v # vs) =
     res_bind (react_child v) (\<lambda>ps. res_bind (react_children vs) (\<lambda>qs. Inr (ps @ qs)))"

section \<open>The rendered Interface\<close>

record interface_view =
  status_dot :: string
  status_text :: string
  response_opacity :: string
  response_content :: "js_error + piece list"
  input_value :: string
  input_disabled :: bool
  button_disabled :: bool
  button_active :: bool
  button_spinner :: bool

text \<open>
  The JSX of \<open>Interface\<close> for \<open>inputText\<close> \<open>txt\<close>, \<open>isLoading\<close> \<open>loading\<close> and
  \<open>latestResponse\<close> \<open>resp\<close>.  The response area renders
  \<open>latestResponse && (...)\<close>: the panel with \<open>"{latestResponse}"\<close> when the value is
  truthy, the falsy value itself otherwise.  \<open>expanded\<close> is not read.
\<close>

definition interface_render :: "string \<Rightarrow> bool \<Rightarrow> jsval \<Rightarrow> interface_view" where
  "interface_render txt loading resp =
     \<lparr>status_dot = (if loading then ''bg-yellow-400 animate-pulse'' else ''bg-green-400''),
      status_text = (if loading then ''PROCESSING'' else ''ONLINE''),
      response_opacity = (if js_truthy resp then ''opacity-100'' else ''opacity-0''),
      response_content =
        (if js_truthy resp
         then res_bind (react_child resp) (\<lambda>ps. Inr (PText ''\"'' # ps @ [PText ''\"'']))
         else react_child resp),
      input_value = txt,
      input_disabled = loading,
      button_disabled = (loading \<or> \<not> js_truthy (JStr (js_trim txt))),
      button_active = (js_truthy (JStr (js_trim txt)) \<and> \<not> loading),
      button_spinner = loading\<rparr>"

text \<open>The page renders the Interface with the App's \<open>isLoading\<close> and \<open>latestResponse\<close>.\<close>

definition page_view :: "sys_state \<Rightarrow> interface_view" where
  "page_view s = interface_render (inputText (ui s)) (isLoading (app s)) (latestResponse (app s))"

section \<open>A run whose answer has an object as reply\<close>

text \<open>
  The model's text parses to an object whose \<open>visualization\<close> is well typed but
  whose \<open>reply\<close> is an object, not the string the schema asks for.
\<close>

definition object_reply_run :: "event list" where
  "object_reply_run =
     [Attach, Type ''hello'', Submit,
      Settle (\<lambda>_. Api_Returns (Some ''ok''))
        (\<lambda>_. Some (JObj [(''reply'', JObj [(''text'', JStr ''hi'')]),
                         (''visualization'', JObj
                            [(''speed'', JNum 1), (''elevation'', JNum 1), (''frequencyX'', JNum 1),
                             (''frequencyY'', JNum 1), (''color'', JStr ''#ffffff''),
                             (''roughness'', JNum 0.5), (''metalness'', JNum 0.5)])]))]"

section \<open>Lemmas\<close>

lemma button_enabled_guard:
  "\<not> button_disabled (interface_render txt loading resp) \<longleftrightarrow> submit_guard txt loading"
  by (auto simp: interface_render_def submit_guard_def)

lemma handle_submit_changes:
  "handle_submit s \<noteq> s \<longleftrightarrow> submit_guard (inputText (ui s)) (isLoading (app s))"
proof
  assume "handle_submit s \<noteq> s"
  then show "submit_guard (inputText (ui s)) (isLoading (app s))"
    by (auto simp: handle_submit_def split: if_splits)
next
  assume g: "submit_guard (inputText (ui s)) (isLoading (app s))"
  then have "isLoading (app (handle_submit s))" by (simp add: handle_submit_def)
  moreover have "\<not> isLoading (app s)" using g by (simp add: submit_guard_def)
  ultimately show "handle_submit s \<noteq> s" by auto
qed

lemma object_reply_run_end:
  "\<exists>s. run_events pc object_reply_run sys_init = Some s \<and>
       latestResponse (app s) = JObj [(''text'', JStr ''hi'')]"
  by (simp add: object_reply_run_def sys_init_def app_init_def initial_obj_def initial_heap_def
      wave_mesh_mount_def sys_attach_def attach_material_def ui_type_def handle_submit_def
      submit_guard_def js_trim_def is_js_space_def complete_analysis_def response_object_def
      analyze_core_def obj_lookup_def typed_config_def thought_settled_def alloc_def)

section \<open>Properties of the rendered Interface\<close>

text \<open>
  C26 (equivalence).  The submit button is enabled exactly when \<open>handleSubmit\<close>
  would act: the button's \<open>disabled={isLoading || !inputText.trim()}\<close> and the
  handler's early return agree in every state of the page.
\<close>

theorem submit_button_matches_handler:
  "\<not> button_disabled (page_view s) \<longleftrightarrow> handle_submit s \<noteq> s"
  by (simp add: page_view_def button_enabled_guard handle_submit_changes)

text \<open>
  C27 (invariant).  In every reachable state with an analysis outstanding, the
  Interface shows \<open>PROCESSING\<close> with the spinner, and its input and button are
  disabled.
\<close>

theorem pending_view:
  assumes "reachable pc s" and "pending s \<noteq> None"
  shows "status_text (page_view s) = ''PROCESSING'' \<and> button_spinner (page_view s) \<and>
         input_disabled (page_view s) \<and> button_disabled (page_view s) \<and>
         \<not> button_active (page_view s)"
  using reachable_sys_inv [OF assms(1)] assms(2)
  by (simp add: sys_inv_def page_view_def interface_render_def)

theorem pending_view_witness:
  "\<exists>s. run_events (\<lambda>_. color_white) [Attach, Type ''I feel calm'', Submit] sys_init = Some s \<and>
       status_text (page_view s) = ''PROCESSING'' \<and> button_disabled (page_view s)"
proof -
  obtain s where run: "run_events (\<lambda>_. color_white) [Attach, Type ''I feel calm'', Submit] sys_init = Some s"
    and p: "pending s = Some ''I feel calm''"
    using demo_submitted by blast
  have "reachable (\<lambda>_. color_white) s" by (rule run_events_reachable [OF run reachable.init])
  from pending_view [OF this] p run show ?thesis by auto
qed

text \<open>
  C28 (error).  \<open>analyzeThought\<close> passes \<open>parsed.reply\<close> on unchecked, so an answer
  whose reply is an object (with a well-typed visualization) becomes
  \<open>latestResponse\<close>, and rendering the response area throws: React refuses a plain
  object as a child.  The page reaches a state whose render fails.
\<close>

theorem object_reply_breaks_render:
  "\<exists>s. reachable pc s \<and>
       response_content (page_view s) = Inl (Type_Error ''Objects are not valid as a React child'')"
proof -
  obtain s where run: "run_events pc object_reply_run sys_init = Some s"
    and r: "latestResponse (app s) = JObj [(''text'', JStr ''hi'')]"
    using object_reply_run_end by blast
  have "reachable pc s" by (rule run_events_reachable [OF run reachable.init])
  moreover have "response_content (page_view s) = Inl (Type_Error ''Objects are not valid as a React child'')"
    by (simp add: page_view_def interface_render_def r)
  ultimately show ?thesis by blast
qed

end
