(* ===== verification/Render_Settle.thy ===== *)
theory Render_Settle
  imports Render_Loop
begin

text \<open>
  The render loop run until the live configuration is within \<open>eps\<close> of the target
  in every interpolated field: the loop of the spec's testable property "LiveConfig is
  a fixed point once |target - live| < eps".  It is \<open>wave_frame\<close> (the
  \<open>useFrame\<close> callback) iterated on a display refreshing every \<open>dt\<close> seconds,
  written as \<open>partial_function (option)\<close>, so that not settling is the value
  \<open>None\<close>.  At \<open>dt = 1\<close> it never settles: the unclamped factor 2 makes every
  gap change sign each frame and keep its size.  (For \<open>0 < dt < 1\<close> the fields
  converge, \<open>clock_frames_converge\<close> in \<open>Render_Loop\<close>.)
\<close>

definition settled :: "real \<Rightarrow> live_config \<Rightarrow> live_config \<Rightarrow> bool" where
  "settled eps tgt l \<longleftrightarrow> list_all (\<lambda>f. \<bar>f tgt - f l\<bar> < eps) live_fields"

text \<open>
  Frame \<open>n + 1\<close> runs at elapsed time \<open>(n + 1) * dt\<close> with delta \<open>dt\<close>; the result
  is the number of the last frame run.
\<close>

partial_function (option) settle_frames ::
  "(string \<Rightarrow> rgb) \<Rightarrow> real \<Rightarrow> real \<Rightarrow> wave_obj \<Rightarrow> nat \<Rightarrow> mesh_state \<Rightarrow> heap \<Rightarrow> nat option" where
  "settle_frames pc dt eps cfg n m h =
     (if settled eps (target_of pc h cfg) (live_of m h) then Some n
      else settle_frames pc dt eps cfg (Suc n)
             (fst (wave_frame pc (real (Suc n) * dt) dt cfg m h))
             (snd (wave_frame pc (real (Suc n) * dt) dt cfg m h)))"

section \<open>Lemmas\<close>

text \<open>One unaliased frame multiplies every field's gap by \<open>1 - 2 * delta\<close>.\<close>

lemma frame_gap:
  assumes "material_attached m" and "mesh_wf m h"
    and "frequency (current_config m) \<noteq> frequency cfg" and "f \<in> set live_fields"
  shows "f (target_of pc (snd (wave_frame pc t d cfg m h)) cfg) -
           f (live_of (fst (wave_frame pc t d cfg m h)) (snd (wave_frame pc t d cfg m h))) =
         (1 - 2 * d) * (f (target_of pc h cfg) - f (live_of m h))"
  using assms by (simp add: target_of_frame wave_frame_live interp_step_field lerp_gap lerp_factor_def)

section \<open>Properties of the settling loop\<close>

text \<open>
  C25 (termination).  At \<open>dt = 1\<close> (one frame per second) the loop never returns
  for a field that starts at least \<open>eps\<close> from its target: the factor is 2, so each
  frame reflects the live value about the target and the gap keeps its size.  The
  spec's "no oscillation" fails; at \<open>1/2 < dt < 1\<close> the values still overshoot and
  alternate around the target while they converge.
\<close>

theorem settle_frames_oscillates:
  assumes "material_attached m" and "mesh_wf m h"
    and "frequency (current_config m) \<noteq> frequency cfg" and "f \<in> set live_fields"
    and "eps \<le> \<bar>f (target_of pc h cfg) - f (live_of m h)\<bar>"
  shows "settle_frames pc 1 eps cfg n m h = None"
proof (rule ccontr)
  assume "settle_frames pc 1 eps cfg n m h \<noteq> None"
  then obtain N where ret: "settle_frames pc 1 eps cfg n m h = Some N" by auto
  have "1 = (1::real) \<longrightarrow> material_attached m \<longrightarrow> mesh_wf m h \<longrightarrow>
      frequency (current_config m) \<noteq> frequency cfg \<longrightarrow>
      eps \<le> \<bar>f (target_of pc h cfg) - f (live_of m h)\<bar> \<longrightarrow> False"
  proof (rule settle_frames.raw_induct [where P = "\<lambda>pc dt eps cfg n m h N.
      dt = 1 \<longrightarrow> material_attached m \<longrightarrow> mesh_wf m h \<longrightarrow>
      frequency (current_config m) \<noteq> frequency cfg \<longrightarrow>
      eps \<le> \<bar>f (target_of pc h cfg) - f (live_of m h)\<bar> \<longrightarrow> False", OF _ ret])
    fix S pc dt eps cfg n m h N
    assume IH: "\<And>pc dt eps cfg n m h N. S pc dt eps cfg n m h = Some N \<Longrightarrow>
        dt = 1 \<longrightarrow> material_attached m \<longrightarrow> mesh_wf m h \<longrightarrow>
        frequency (current_config m) \<noteq> frequency cfg \<longrightarrow>
        eps \<le> \<bar>f (target_of pc h cfg) - f (live_of m h)\<bar> \<longrightarrow> False"
      and eq: "(if settled eps (target_of pc h cfg) (live_of m h) then Some n
        else S pc dt eps cfg (Suc n)
               (fst (wave_frame pc (real (Suc n) * dt) dt cfg m h))
               (snd (wave_frame pc (real (Suc n) * dt) dt cfg m h))) = Some N"
    show "dt = 1 \<longrightarrow> material_attached m \<longrightarrow> mesh_wf m h \<longrightarrow>
        frequency (current_config m) \<noteq> frequency cfg \<longrightarrow>
        eps \<le> \<bar>f (target_of pc h cfg) - f (live_of m h)\<bar> \<longrightarrow> False"
    proof (intro impI)
      assume d: "dt = 1" and pre: "material_attached m" "mesh_wf m h"
        "frequency (current_config m) \<noteq> frequency cfg"
        and far: "eps \<le> \<bar>f (target_of pc h cfg) - f (live_of m h)\<bar>"
      have "\<not> settled eps (target_of pc h cfg) (live_of m h)"
        unfolding settled_def list_all_iff
      proof
        assume "\<forall>g \<in> set live_fields. \<bar>g (target_of pc h cfg) - g (live_of m h)\<bar> < eps"
        then have "\<bar>f (target_of pc h cfg) - f (live_of m h)\<bar> < eps" using assms(4) by blast
        with far show False by linarith
      qed
      with eq have step: "S pc dt eps cfg (Suc n)
          (fst (wave_frame pc (real (Suc n) * dt) dt cfg m h))
          (snd (wave_frame pc (real (Suc n) * dt) dt cfg m h)) = Some N" by simp
      let ?m = "fst (wave_frame pc (real (Suc n) * dt) dt cfg m h)"
        and ?h = "snd (wave_frame pc (real (Suc n) * dt) dt cfg m h)"
      have "material_attached ?m" "mesh_wf ?m ?h" "frequency (current_config ?m) \<noteq> frequency cfg"
        using pre by (rule wave_frame_unaliased_pres)+
      moreover have "eps \<le> \<bar>f (target_of pc ?h cfg) - f (live_of ?m ?h)\<bar>"
        using far d by (simp add: frame_gap [OF pre assms(4)])
      ultimately show False using IH [OF step] d by blast
    qed
  qed
  then show False using assms(1-3,5) by blast
qed

theorem settle_frames_oscillates_witness:
  "settle_frames demo_parse 1 (1 / 100) demo_target 0 demo_mesh demo_heap = None"
  using settle_frames_oscillates [of demo_mesh demo_heap demo_target speed "1 / 100" demo_parse 0]
  by (simp add: demo_defs live_of_def target_of_def)

end
