(* ===== verification/Shader.thy ===== *)
theory Shader
  imports Render_Loop
begin

text \<open>
  The GLSL programs of \<open>src/components/WaveScene.tsx\<close> over the reals: the GLSL
  built-ins the shaders use, the classic-noise helpers (\<open>mod289\<close>, \<open>permute\<close>,
  \<open>taylorInvSqrt\<close>), \<open>cnoise\<close> with its vector operations written lane by lane (a
  \<open>vec4\<close> lane is one lattice corner: lanes x, y, z, w are the corners 00, 10, 01,
  11 in (x, y)), the vertex displacement of \<open>main\<close>, and the fragment colour before
  three.js's \<open>colorspace_fragment\<close>.  Single-precision rounding is not modelled.
\<close>

section \<open>GLSL built-ins\<close>

record v3 =
  v3x :: real
  v3y :: real
  v3z :: real

definition gl_floor :: "real \<Rightarrow> real" where
  "gl_floor x = of_int \<lfloor>x\<rfloor>"

definition gl_fract :: "real \<Rightarrow> real" where
  "gl_fract x = x - gl_floor x"

definition gl_step :: "real \<Rightarrow> real \<Rightarrow> real" where
  "gl_step edge x = (if x < edge then 0 else 1)"

definition gl_mix :: "real \<Rightarrow> real \<Rightarrow> real \<Rightarrow> real" where
  "gl_mix a b t = a * (1 - t) + b * t"

definition gl_clamp :: "real \<Rightarrow> real \<Rightarrow> real \<Rightarrow> real" where
  "gl_clamp x lo hi = min (max x lo) hi"

definition gl_smoothstep :: "real \<Rightarrow> real \<Rightarrow> real \<Rightarrow> real" where
  "gl_smoothstep e0 e1 x = (let t = gl_clamp ((x - e0) / (e1 - e0)) 0 1 in t * t * (3 - 2 * t))"

definition v3_map :: "(real \<Rightarrow> real) \<Rightarrow> v3 \<Rightarrow> v3" where
  "v3_map f v = \<lparr>v3x = f (v3x v), v3y = f (v3y v), v3z = f (v3z v)\<rparr>"

definition dot3 :: "v3 \<Rightarrow> v3 \<Rightarrow> real" where
  "dot3 a b = v3x a * v3x b + v3y a * v3y b + v3z a * v3z b"

section \<open>Classic noise\<close>

definition mod289 :: "real \<Rightarrow> real" where
  "mod289 x = x - gl_floor (x * (1 / 289)) * 289"

definition permute :: "real \<Rightarrow> real" where
  "permute x = mod289 ((x * 34 + 1) * x)"

definition taylorInvSqrt :: "real \<Rightarrow> real" where
  "taylorInvSqrt r = 1.79284291400159 - 0.85373472095314 * r"

text \<open>
  One lane of the gradient computation (\<open>gx0\<close>, \<open>gy0\<close>, \<open>gz0\<close>, \<open>sz0\<close> and the two
  corrections), from the lane's hash value.
\<close>

definition grad_lane :: "real \<Rightarrow> v3" where
  "grad_lane ixy =
     (let gx = ixy * (1 / 7);
          gy = gl_fract (gl_floor gx * (1 / 7)) - 0.5;
          gx = gl_fract gx;
          gz = 0.5 - \<bar>gx\<bar> - \<bar>gy\<bar>;
          sz = gl_step gz 0;
          gx = gx - sz * (gl_step 0 gx - 0.5);
          gy = gy - sz * (gl_step 0 gy - 0.5)
      in \<lparr>v3x = gx, v3y = gy, v3z = gz\<rparr>)"

text \<open>\<open>g *= taylorInvSqrt(dot(g, g))\<close>, lane by lane (\<open>norm0\<close>, \<open>norm1\<close>).\<close>

definition normed :: "v3 \<Rightarrow> v3" where
  "normed g = v3_map (\<lambda>c. c * taylorInvSqrt (dot3 g g)) g"

definition fade :: "real \<Rightarrow> real" where
  "fade t = t * t * t * (t * (t * 6 - 15) + 10)"

text \<open>
  The source's \<open>cnoise\<close>, with the offset vectors it pairs with each corner
  gradient as written (\<open>n100\<close> uses \<open>(Pf0.x, Pf1.y, Pf0.z)\<close>, and so on).
\<close>

definition cnoise :: "v3 \<Rightarrow> real" where
  "cnoise P =
     (let Pi0 = v3_map gl_floor P;
          Pi1 = v3_map (\<lambda>c. c + 1) Pi0;
          Pi0 = v3_map mod289 Pi0;
          Pi1 = v3_map mod289 Pi1;
          Pf0 = v3_map gl_fract P;
          Pf1 = v3_map (\<lambda>c. c - 1) Pf0;
          ixy_x = permute (permute (v3x Pi0) + v3y Pi0);
          ixy_y = permute (permute (v3x Pi1) + v3y Pi0);
          ixy_z = permute (permute (v3x Pi0) + v3y Pi1);
          ixy_w = permute (permute (v3x Pi1) + v3y Pi1);
          g000 = normed (grad_lane (permute (ixy_x + v3z Pi0)));
          g100 = normed (grad_lane (permute (ixy_y + v3z Pi0)));
          g010 = normed (grad_lane (permute (ixy_z + v3z Pi0)));
          g110 = normed (grad_lane (permute (ixy_w + v3z Pi0)));
          g001 = normed (grad_lane (permute (ixy_x + v3z Pi1)));
          g101 = normed (grad_lane (permute (ixy_y + v3z Pi1)));
          g011 = normed (grad_lane (permute (ixy_z + v3z Pi1)));
          g111 = normed (grad_lane (permute (ixy_w + v3z Pi1)));
          n000 = dot3 g000 Pf0;
          n100 = dot3 g100 \<lparr>v3x = v3x Pf0, v3y = v3y Pf1, v3z = v3z Pf0\<rparr>;
          n010 = dot3 g010 \<lparr>v3x = v3x Pf0, v3y = v3y Pf0, v3z = v3z Pf1\<rparr>;
          n110 = dot3 g110 \<lparr>v3x = v3x Pf0, v3y = v3y Pf1, v3z = v3z Pf1\<rparr>;
          n001 = dot3 g001 \<lparr>v3x = v3x Pf1, v3y = v3y Pf0, v3z = v3z Pf0\<rparr>;
          n101 = dot3 g101 \<lparr>v3x = v3x Pf1, v3y = v3y Pf1, v3z = v3z Pf0\<rparr>;
          n011 = dot3 g011 \<lparr>v3x = v3x Pf1, v3y = v3y Pf0, v3z = v3z Pf1\<rparr>;
          n111 = dot3 g111 Pf1;
          fx = fade (v3x Pf0); fy = fade (v3y Pf0); fz = fade (v3z Pf0);
          nz_x = gl_mix n000 n001 fz; nz_y = gl_mix n100 n101 fz;
          nz_z = gl_mix n010 n011 fz; nz_w = gl_mix n110 n111 fz;
          nyz_x = gl_mix nz_x nz_z fy; nyz_y = gl_mix nz_y nz_w fy;
          nxyz = gl_mix nyz_x nyz_y fx
      in 2.2 * nxyz)"

section \<open>The vertex and fragment programs\<close>

text \<open>
  \<open>main\<close> of the vertex shader, from the model-space position \<open>modelPosition\<close>:
  the product of sines scaled by 0.2 plus the noise at
  \<open>(modelPosition.xz * uFrequency * 0.5, uTime * uSpeed * 0.5)\<close> scaled by
  \<open>uElevation\<close>.
\<close>

definition vertex_elevation :: "uniforms \<Rightarrow> v3 \<Rightarrow> real" where
  "vertex_elevation u mp =
     sin (v3x mp * vx (uFrequency u) - uTime u * uSpeed u) *
     sin (v3z mp * vy (uFrequency u) - uTime u * uSpeed u) * 0.2 +
     cnoise \<lparr>v3x = v3x mp * vx (uFrequency u) * 0.5, v3y = v3z mp * vy (uFrequency u) * 0.5,
             v3z = uTime u * uSpeed u * 0.5\<rparr> * uElevation u"

definition vertex_position :: "uniforms \<Rightarrow> v3 \<Rightarrow> v3" where
  "vertex_position u mp = mp\<lparr>v3y := v3y mp + vertex_elevation u mp\<rparr>"

text \<open>\<open>main\<close> of the fragment shader: depth shading between half and one and a half times the colour, plus the grid lines.\<close>

definition fragment_color :: "uniforms \<Rightarrow> real \<Rightarrow> real \<Rightarrow> real \<Rightarrow> rgb" where
  "fragment_color u vElevation uvx uvy =
     (let depth = gl_smoothstep (-1) 1 vElevation;
          c = uColor u;
          gridX = gl_smoothstep 0.98 1 \<bar>sin (uvx * 100)\<bar>;
          gridY = gl_smoothstep 0.98 1 \<bar>sin (uvy * 100)\<bar>;
          grid = max gridX gridY * 0.3
      in \<lparr>cr = gl_mix (cr c * 0.5) (cr c * 1.5) depth + grid,
          cg = gl_mix (cg c * 0.5) (cg c * 1.5) depth + grid,
          cb = gl_mix (cb c * 0.5) (cb c * 1.5) depth + grid\<rparr>)"

section \<open>Lemmas on the built-ins and the noise helpers\<close>

lemma gl_floor_consts [simp]: "gl_floor 0 = 0" "gl_floor 1 = 1"
  by (simp_all add: gl_floor_def)

lemma gl_floor_shift: "gl_floor (x + of_int n) = gl_floor x + of_int n"
  by (simp add: gl_floor_def)

lemma gl_fract_shift: "gl_fract (x + of_int n) = gl_fract x"
  by (simp add: gl_fract_def gl_floor_shift)

lemma gl_fract_int [simp]: "gl_fract (of_int n) = 0"
  by (simp add: gl_fract_def gl_floor_def)

lemma smoothstep_unit: "0 \<le> gl_smoothstep e0 e1 x \<and> gl_smoothstep e0 e1 x \<le> 1"
proof -
  define t where "t = gl_clamp ((x - e0) / (e1 - e0)) 0 1"
  have t: "0 \<le> t" "t \<le> 1" by (auto simp: t_def gl_clamp_def)
  have "1 - t * t * (3 - 2 * t) = (1 - t)\<^sup>2 * (1 + 2 * t)"
    by (simp add: power2_eq_square algebra_simps)
  moreover have "0 \<le> (1 - t)\<^sup>2 * (1 + 2 * t)" using t by simp
  moreover have "0 \<le> t * t * (3 - 2 * t)" using t by simp
  ultimately show ?thesis by (simp add: gl_smoothstep_def t_def [symmetric] Let_def)
qed

lemma shade_bounds:
  assumes "0 \<le> c" "0 \<le> g" "g \<le> 0.3"
  shows "c * 0.5 \<le> gl_mix (c * 0.5) (c * 1.5) (gl_smoothstep e0 e1 e) + g \<and>
         gl_mix (c * 0.5) (c * 1.5) (gl_smoothstep e0 e1 e) + g \<le> c * 1.5 + 0.3"
proof -
  let ?d = "gl_smoothstep e0 e1 e"
  have eq: "gl_mix (c * 0.5) (c * 1.5) ?d = c * 0.5 + c * ?d"
    by (simp add: gl_mix_def field_simps)
  have "0 \<le> c * ?d" "c * ?d \<le> c" using smoothstep_unit [of e0 e1 e] assms
    by (simp_all add: mult_left_le)
  then show ?thesis using assms eq by linarith
qed

lemma grid_bounds:
  "0 \<le> max (gl_smoothstep a b x) (gl_smoothstep a' b' y) * 0.3 \<and>
   max (gl_smoothstep a b x) (gl_smoothstep a' b' y) * 0.3 \<le> 0.3"
  using smoothstep_unit [of a b x] smoothstep_unit [of a' b' y] by (auto simp: max_def)

lemma fragment_channel_bounds:
  assumes "0 \<le> c"
  shows "c * 0.5 \<le> gl_mix (c * 0.5) (c * 1.5) (gl_smoothstep (-1) 1 e) +
           max (gl_smoothstep 0.98 1 \<bar>sin (uvx * 100)\<bar>) (gl_smoothstep 0.98 1 \<bar>sin (uvy * 100)\<bar>) * 0.3 \<and>
         gl_mix (c * 0.5) (c * 1.5) (gl_smoothstep (-1) 1 e) +
           max (gl_smoothstep 0.98 1 \<bar>sin (uvx * 100)\<bar>) (gl_smoothstep 0.98 1 \<bar>sin (uvy * 100)\<bar>) * 0.3
         \<le> c * 1.5 + 0.3"
  using grid_bounds by (intro shade_bounds assms) auto

lemma mod289_shift: "mod289 (y + 289 * of_int k) = mod289 y"
proof -
  have "gl_floor ((y + 289 * of_int k) * (1 / 289)) = gl_floor (y * (1 / 289)) + of_int k"
    using gl_floor_shift [of "y * (1 / 289)" k] by (simp add: algebra_simps)
  then show ?thesis by (simp add: mod289_def algebra_simps)
qed

lemma mod289_small: "0 \<le> x \<Longrightarrow> x < 289 \<Longrightarrow> mod289 x = x"
  by (simp add: mod289_def gl_floor_def floor_eq_iff)

lemma mod289_consts [simp]: "mod289 0 = 0" "mod289 1 = 1"
  by (simp_all add: mod289_small)

lemma permute_vals: "permute 0 = 0" "permute 1 = 35" "permute 35 = 69" "permute 69 = 103"
  by (simp_all add: permute_def mod289_def gl_floor_def)

lemma grad_lane_vals:
  "grad_lane 0 = \<lparr>v3x = -1/2, v3y = 0, v3z = 0\<rparr>"
  "grad_lane 103 = \<lparr>v3x = 3/14, v3y = 0, v3z = -5/7\<rparr>"
  by (simp_all add: grad_lane_def gl_fract_def gl_floor_def gl_step_def Let_def)

text \<open>
  \<open>cnoise P\<close> depends on \<open>P\<close> only through the hashed cell corners and the
  position inside the cell.
\<close>

lemma cnoise_cong:
  assumes "v3_map mod289 (v3_map gl_floor P) = v3_map mod289 (v3_map gl_floor Q)"
    and "v3_map mod289 (v3_map (\<lambda>c. c + 1) (v3_map gl_floor P)) =
         v3_map mod289 (v3_map (\<lambda>c. c + 1) (v3_map gl_floor Q))"
    and "v3_map gl_fract P = v3_map gl_fract Q"
  shows "cnoise P = cnoise Q"
  unfolding cnoise_def Let_def assms ..

text \<open>
  Along the x axis inside the first cell, only the corners 000 and 100 contribute;
  the 100 corner is paired with the offset \<open>(Pf0.x, Pf1.y, Pf0.z)\<close>.
\<close>

lemma cnoise_axis:
  assumes "0 \<le> x" "x < 1"
  shows "cnoise \<lparr>v3x = x, v3y = 0, v3z = 0\<rparr> =
         2.2 * ((1 - fade x) * (- 1/2 * taylorInvSqrt (1/4)) * x +
                fade x * (3/14 * taylorInvSqrt (109/196)) * x)"
proof -
  have fl: "gl_floor x = 0" using assms by (simp add: gl_floor_def floor_eq_iff)
  have f0: "fade 0 = 0" by (simp add: fade_def)
  have P: "v3_map gl_floor \<lparr>v3x = x, v3y = 0, v3z = 0\<rparr> = \<lparr>v3x = 0, v3y = 0, v3z = 0\<rparr>"
    "v3_map gl_fract \<lparr>v3x = x, v3y = 0, v3z = 0\<rparr> = \<lparr>v3x = x, v3y = 0, v3z = 0\<rparr>"
    using fl by (simp_all add: v3_map_def gl_fract_def)
  have Q: "v3_map mod289 \<lparr>v3x = 0, v3y = 0, v3z = 0\<rparr> = \<lparr>v3x = 0, v3y = 0, v3z = 0\<rparr>"
    "v3_map mod289 (v3_map (\<lambda>c. c + 1) \<lparr>v3x = 0, v3y = 0, v3z = 0\<rparr>) = \<lparr>v3x = 1, v3y = 1, v3z = 1\<rparr>"
    "v3_map (\<lambda>c. c - 1) \<lparr>v3x = x, v3y = 0, v3z = 0\<rparr> = \<lparr>v3x = x - 1, v3y = -1, v3z = -1\<rparr>"
    by (simp_all add: v3_map_def)
  show ?thesis
    unfolding cnoise_def P Q
    apply (simp only: Let_def v3.simps)
    apply (simp add: permute_vals f0 gl_mix_def)
    apply (simp add: permute_vals grad_lane_vals normed_def v3_map_def dot3_def)
    apply (simp add: gl_mix_def algebra_simps)
    done
qed

lemma gl_fract_range [simp]: "0 \<le> gl_fract x" "gl_fract x < 1"
  unfolding gl_fract_def gl_floor_def
  using real_of_int_floor_add_one_gt [of x] of_int_floor_le [of x] by linarith+

lemma gl_fract_le_one [simp]: "gl_fract x \<le> 1"
  using gl_fract_range(2) [of x] by linarith

lemma gl_fract_abs [simp]: "\<bar>gl_fract x\<bar> \<le> 1" "\<bar>gl_fract x - 1\<bar> \<le> 1"
  using gl_fract_range [of x] by linarith+

lemma fade_unit: "0 \<le> t \<Longrightarrow> t \<le> 1 \<Longrightarrow> 0 \<le> fade t \<and> fade t \<le> 1"
proof -
  assume t: "0 \<le> t" "t \<le> 1"
  have "1 - fade t = (1 - t) ^ 3 * (1 + 3 * t + 6 * t\<^sup>2)"
    by (simp add: fade_def power2_eq_square power3_eq_cube algebra_simps)
  moreover have "0 \<le> (1 - t) ^ 3 * (1 + 3 * t + 6 * t\<^sup>2)" using t by simp
  moreover have "fade t = t ^ 3 * (6 * (t - 5 / 4)\<^sup>2 + 5 / 8)"
    by (simp add: fade_def power2_eq_square power3_eq_cube algebra_simps)
  moreover have "0 \<le> t ^ 3 * (6 * (t - 5 / 4)\<^sup>2 + 5 / 8)" using t by simp
  ultimately show ?thesis by linarith
qed

lemma fade_fract [simp]: "0 \<le> fade (gl_fract x)" "fade (gl_fract x) \<le> 1"
  using fade_unit [of "gl_fract x"] less_imp_le [OF gl_fract_range(2)] by simp_all

lemma mix_bound:
  "\<bar>a\<bar> \<le> B \<Longrightarrow> \<bar>b\<bar> \<le> B \<Longrightarrow> 0 \<le> t \<Longrightarrow> t \<le> 1 \<Longrightarrow> \<bar>gl_mix a b t\<bar> \<le> B"
proof -
  assume ab: "\<bar>a\<bar> \<le> B" "\<bar>b\<bar> \<le> B" and t: "0 \<le> t" "t \<le> 1"
  have "\<bar>a * (1 - t)\<bar> \<le> B * (1 - t)" using ab t by (simp add: abs_mult mult_right_mono)
  moreover have "\<bar>b * t\<bar> \<le> B * t" using ab t by (simp add: abs_mult mult_right_mono)
  moreover have "B * (1 - t) + B * t = B" by (simp add: algebra_simps)
  ultimately show ?thesis
    unfolding gl_mix_def using abs_triangle_ineq [of "a * (1 - t)" "b * t"] by linarith
qed

lemma grad_lane_bound:
  "\<bar>v3x (grad_lane a)\<bar> \<le> 1 \<and> \<bar>v3y (grad_lane a)\<bar> \<le> 1 \<and> \<bar>v3z (grad_lane a)\<bar> \<le> 1"
proof -
  define gx where "gx = gl_fract (a * (1 / 7))"
  define gy where "gy = gl_fract (gl_floor (a * (1 / 7)) * (1 / 7)) - 0.5"
  have x: "0 \<le> gx" "gx < 1" and y: "-0.5 \<le> gy" "gy < 0.5"
    unfolding gx_def gy_def using gl_fract_range by auto
  show ?thesis
    unfolding grad_lane_def Let_def gx_def [symmetric] gy_def [symmetric]
    using x y by (auto simp: gl_step_def abs_le_iff)
qed

lemma taylorInvSqrt_bound: "0 \<le> r \<Longrightarrow> r \<le> 3 \<Longrightarrow> \<bar>taylorInvSqrt r\<bar> \<le> 1.8"
  unfolding taylorInvSqrt_def abs_le_iff by (intro conjI; simp; linarith)

lemma corner_bound:
  assumes "\<bar>v3x q\<bar> \<le> 1" "\<bar>v3y q\<bar> \<le> 1" "\<bar>v3z q\<bar> \<le> 1"
  shows "\<bar>dot3 (normed (grad_lane a)) q\<bar> \<le> 5.4"
proof -
  let ?g = "grad_lane a"
  let ?t = "taylorInvSqrt (dot3 ?g ?g)"
  have g: "\<bar>v3x ?g\<bar> \<le> 1" "\<bar>v3y ?g\<bar> \<le> 1" "\<bar>v3z ?g\<bar> \<le> 1" using grad_lane_bound by auto
  have sq: "v3x ?g * v3x ?g \<le> 1" "v3y ?g * v3y ?g \<le> 1" "v3z ?g * v3z ?g \<le> 1"
    using g by (metis abs_ge_zero abs_mult_self_eq mult_le_one)+
  have "0 \<le> dot3 ?g ?g" "dot3 ?g ?g \<le> 3" using sq by (simp_all add: dot3_def)
  then have t: "\<bar>?t\<bar> \<le> 1.8" by (rule taylorInvSqrt_bound)
  have c: "\<bar>c * ?t * w\<bar> \<le> 1.8" if "\<bar>c\<bar> \<le> 1" "\<bar>w\<bar> \<le> 1" for c w
  proof -
    have "\<bar>c * ?t * w\<bar> = \<bar>c\<bar> * \<bar>?t\<bar> * \<bar>w\<bar>" by (simp add: abs_mult)
    also have "\<dots> \<le> 1 * 1.8 * 1"
      using that t by (intro mult_mono) auto
    finally show ?thesis by simp
  qed
  have "\<bar>v3x ?g * ?t * v3x q\<bar> \<le> 1.8" "\<bar>v3y ?g * ?t * v3y q\<bar> \<le> 1.8" "\<bar>v3z ?g * ?t * v3z q\<bar> \<le> 1.8"
    using c g assms by auto
  moreover have "dot3 (normed ?g) q = v3x ?g * ?t * v3x q + v3y ?g * ?t * v3y q + v3z ?g * ?t * v3z q"
    by (simp add: dot3_def normed_def v3_map_def)
  ultimately show ?thesis
    using abs_triangle_ineq [of "v3x ?g * ?t * v3x q + v3y ?g * ?t * v3y q" "v3z ?g * ?t * v3z q"]
      abs_triangle_ineq [of "v3x ?g * ?t * v3x q" "v3y ?g * ?t * v3y q"] by linarith
qed

text \<open>A crude bound on the noise: gradients and offsets are bounded, and \<open>mix\<close> with weights in [0, 1] keeps a bound.\<close>

lemma cnoise_abs_le: "\<bar>cnoise P\<bar> \<le> 11.88"
proof -
  have "\<bar>cnoise P / 2.2\<bar> \<le> 5.4"
    unfolding cnoise_def Let_def
    by (simp only: nonzero_mult_div_cancel_left [of "2.2"] zero_neq_numeral)
      (intro mix_bound corner_bound; simp add: v3_map_def)
  then show ?thesis by simp
qed

lemma vertex_elevation_abs_le: "\<bar>vertex_elevation u mp\<bar> \<le> 0.2 + 11.88 * \<bar>uElevation u\<bar>"
proof -
  let ?s = "sin (v3x mp * vx (uFrequency u) - uTime u * uSpeed u) *
            sin (v3z mp * vy (uFrequency u) - uTime u * uSpeed u)"
  let ?n = "cnoise \<lparr>v3x = v3x mp * vx (uFrequency u) * 0.5, v3y = v3z mp * vy (uFrequency u) * 0.5,
             v3z = uTime u * uSpeed u * 0.5\<rparr>"
  have "\<bar>?s\<bar> \<le> 1" by (simp add: abs_mult mult_le_one)
  then have s: "\<bar>?s * 0.2\<bar> \<le> 0.2" by (simp add: abs_mult)
  have "\<bar>?n * uElevation u\<bar> = \<bar>?n\<bar> * \<bar>uElevation u\<bar>" by (rule abs_mult)
  also have "\<dots> \<le> 11.88 * \<bar>uElevation u\<bar>"
    by (rule mult_right_mono [OF cnoise_abs_le abs_ge_zero])
  finally have "\<bar>?n * uElevation u\<bar> \<le> 11.88 * \<bar>uElevation u\<bar>" .
  with s show ?thesis
    unfolding vertex_elevation_def using abs_triangle_ineq [of "?s * 0.2" "?n * uElevation u"] by linarith
qed

section \<open>Properties of the shaders\<close>

text \<open>
  C20: the noise vanishes at every integer lattice point: there the position inside
  the cell is zero, so only the 000 corner contributes, with a zero offset.
\<close>

theorem cnoise_lattice_zero:
  "cnoise \<lparr>v3x = of_int a, v3y = of_int b, v3z = of_int c\<rparr> = 0"
  by (simp add: cnoise_def Let_def v3_map_def dot3_def fade_def gl_mix_def)

text \<open>
  C21: the noise is periodic with period 289 along each axis, because the lattice
  corners are reduced by \<open>mod289\<close> before hashing.
\<close>

theorem cnoise_periodic:
  "cnoise \<lparr>v3x = v3x P + 289 * of_int a, v3y = v3y P + 289 * of_int b,
           v3z = v3z P + 289 * of_int c\<rparr> = cnoise P"
proof (rule cnoise_cong)
  have fl: "gl_floor (x + 289 * of_int k) = gl_floor x + 289 * of_int k" for x k
    using gl_floor_shift [of x "289 * k"] by simp
  have m1: "mod289 (gl_floor (x + 289 * of_int k)) = mod289 (gl_floor x)" for x k
    by (simp add: fl mod289_shift)
  have m2: "mod289 (gl_floor (x + 289 * of_int k) + 1) = mod289 (gl_floor x + 1)" for x k
  proof -
    have "gl_floor (x + 289 * of_int k) + 1 = (gl_floor x + 1) + 289 * of_int k"
      by (simp add: fl)
    then show ?thesis by (simp only: mod289_shift)
  qed
  have fr: "gl_fract (x + 289 * of_int k) = gl_fract x" for x k
    using gl_fract_shift [of x "289 * k"] by simp
  show "v3_map mod289 (v3_map gl_floor \<lparr>v3x = v3x P + 289 * of_int a, v3y = v3y P + 289 * of_int b,
          v3z = v3z P + 289 * of_int c\<rparr>) = v3_map mod289 (v3_map gl_floor P)"
    by (simp add: v3_map_def m1)
  show "v3_map mod289 (v3_map (\<lambda>c. c + 1) (v3_map gl_floor \<lparr>v3x = v3x P + 289 * of_int a,
          v3y = v3y P + 289 * of_int b, v3z = v3z P + 289 * of_int c\<rparr>)) =
        v3_map mod289 (v3_map (\<lambda>c. c + 1) (v3_map gl_floor P))"
    by (simp add: v3_map_def m2)
  show "v3_map gl_fract \<lparr>v3x = v3x P + 289 * of_int a, v3y = v3y P + 289 * of_int b,
          v3z = v3z P + 289 * of_int c\<rparr> = v3_map gl_fract P"
    by (simp add: v3_map_def fr)
qed

text \<open>
  C22: the source's noise is not continuous: along the x axis it tends to
  \<open>2.2 * 3/14 * taylorInvSqrt (109/196)\<close> (about 0.62) as x approaches 1 from below,
  while it is 0 at x = 1.  Classic Perlin noise pairs the 100 corner with the offset
  \<open>(Pf1.x, Pf0.y, Pf0.z)\<close>, which vanishes in the x component at the face; the
  source's vertex shader therefore tears the surface along the noise cell faces.
\<close>

theorem cnoise_face_discontinuous: "\<not> isCont (\<lambda>x. cnoise \<lparr>v3x = x, v3y = 0, v3z = 0\<rparr>) 1"
proof
  assume cont: "isCont (\<lambda>x. cnoise \<lparr>v3x = x, v3y = 0, v3z = 0\<rparr>) 1"
  define F where "F x = 2.2 * ((1 - fade x) * (- 1/2 * taylorInvSqrt (1/4)) * x +
                     fade x * (3/14 * taylorInvSqrt (109/196)) * x)" for x :: real
  define s where "s n = 1 - inverse (real (Suc n))" for n
  have s: "s \<longlonglongrightarrow> 1"
    unfolding s_def using tendsto_diff [OF tendsto_const LIMSEQ_inverse_real_of_nat, of 1] by simp
  have "(\<lambda>n. cnoise \<lparr>v3x = s n, v3y = 0, v3z = 0\<rparr>) \<longlonglongrightarrow> cnoise \<lparr>v3x = 1, v3y = 0, v3z = 0\<rparr>"
    using isCont_tendsto_compose [OF cont s] .
  moreover have "cnoise \<lparr>v3x = s n, v3y = 0, v3z = 0\<rparr> = F (s n)" for n
    unfolding F_def by (rule cnoise_axis) (simp_all add: s_def field_simps)
  moreover have "cnoise \<lparr>v3x = 1, v3y = 0, v3z = 0\<rparr> = 0"
    by (simp add: cnoise_def Let_def v3_map_def dot3_def fade_def gl_mix_def gl_fract_def)
  ultimately have "(\<lambda>n. F (s n)) \<longlonglongrightarrow> 0" by simp
  moreover have "(\<lambda>n. F (s n)) \<longlonglongrightarrow> F 1"
    unfolding F_def fade_def by (intro tendsto_intros s)
  ultimately have "F 1 = 0" using LIMSEQ_unique by blast
  then show False by (simp add: F_def fade_def taylorInvSqrt_def)
qed

text \<open>
  C23: with a non-negative base colour, every channel of the fragment colour lies
  between half the base colour (deepest trough, no grid line) and one and a half
  times it plus the grid's 0.3.
\<close>

theorem fragment_color_bounds:
  assumes "0 \<le> cr (uColor u)" "0 \<le> cg (uColor u)" "0 \<le> cb (uColor u)"
  shows "cr (uColor u) * 0.5 \<le> cr (fragment_color u e uvx uvy) \<and>
         cr (fragment_color u e uvx uvy) \<le> cr (uColor u) * 1.5 + 0.3 \<and>
         cg (uColor u) * 0.5 \<le> cg (fragment_color u e uvx uvy) \<and>
         cg (fragment_color u e uvx uvy) \<le> cg (uColor u) * 1.5 + 0.3 \<and>
         cb (uColor u) * 0.5 \<le> cb (fragment_color u e uvx uvy) \<and>
         cb (fragment_color u e uvx uvy) \<le> cb (uColor u) * 1.5 + 0.3"
  unfolding fragment_color_def Let_def rgb.simps
  using fragment_channel_bounds [OF assms(1)] fragment_channel_bounds [OF assms(2)]
    fragment_channel_bounds [OF assms(3)] by blast

theorem fragment_color_bounds_witness:
  "0 \<le> cr (uColor initial_uniforms) \<and> 0 \<le> cg (uColor initial_uniforms) \<and>
   0 \<le> cb (uColor initial_uniforms) \<and>
   1 * 0.5 \<le> cr (fragment_color initial_uniforms 0 0 0) \<and>
   cr (fragment_color initial_uniforms 0 0 0) \<le> 1 * 1.5 + 0.3"
  using fragment_color_bounds [of initial_uniforms 0 0 0]
  by (simp add: initial_uniforms_def color_white_def)

text \<open>
  C24: \<open>mod289\<close> maps every real into [0, 289), so the hashes fed to \<open>permute\<close> and
  the gradient lanes are bounded.
\<close>

theorem mod289_range: "0 \<le> mod289 x \<and> mod289 x < 289"
proof -
  have "of_int \<lfloor>x / 289\<rfloor> \<le> x / 289" "x / 289 < of_int \<lfloor>x / 289\<rfloor> + 1"
    by (rule of_int_floor_le, rule real_of_int_floor_add_one_gt)
  then have "of_int \<lfloor>x / 289\<rfloor> * 289 \<le> x" "x < of_int \<lfloor>x / 289\<rfloor> * 289 + 289"
    by linarith+
  then show ?thesis by (simp add: mod289_def gl_floor_def)
qed

end
