(* ===== verification/Scene.thy ===== *)
theory Scene
  imports Shader
begin

text \<open>
  The geometry the shaders of \<open>src/components/WaveScene.tsx\<close> run on: the
  \<open><planeGeometry args={[10, 10, 256, 256]} />\<close> of \<open>WaveMesh\<close> (three.js's
  \<open>PlaneGeometry\<close>, modelled from its definition: a grid of
  \<open>(gridX + 1) * (gridY + 1)\<close> vertices in the xy plane with their uv coordinates) and
  the mesh's \<open>rotation={[-Math.PI / 2, 0, 0]}\<close> and \<open>position={[0, -1, 0]}\<close>, which
  make \<open>modelMatrix * vec4(position, 1.0)\<close> in the vertex shader.  Camera, controls,
  stars and lights are in \<open>Scene_Graph\<close>.
\<close>

section \<open>Plane geometry\<close>

text \<open>
  Vertex \<open>(ix, iy)\<close> of \<open>PlaneGeometry(width, height, gridX, gridY)\<close>:
  \<open>x = ix * width / gridX - width / 2\<close>, \<open>y = -(iy * height / gridY - height / 2)\<close>,
  \<open>z = 0\<close>, with uv \<open>(ix / gridX, 1 - iy / gridY)\<close>.
\<close>

definition plane_vertex :: "real \<Rightarrow> real \<Rightarrow> nat \<Rightarrow> nat \<Rightarrow> nat \<Rightarrow> nat \<Rightarrow> v3 \<times> real \<times> real" where
  "plane_vertex width height gridX gridY ix iy =
     (\<lparr>v3x = real ix * (width / real gridX) - width / 2,
       v3y = - (real iy * (height / real gridY) - height / 2), v3z = 0\<rparr>,
      real ix / real gridX, 1 - real iy / real gridY)"

definition plane_geometry :: "real \<Rightarrow> real \<Rightarrow> nat \<Rightarrow> nat \<Rightarrow> (v3 \<times> real \<times> real) list" where
  "plane_geometry width height gridX gridY =
     concat (map (\<lambda>iy. map (\<lambda>ix. plane_vertex width height gridX gridY ix iy) [0..<Suc gridX])
                 [0..<Suc gridY])"

definition wave_plane :: "(v3 \<times> real \<times> real) list" where
  "wave_plane = plane_geometry 10 10 256 256"

section \<open>The mesh transform\<close>

definition mesh_rotation_x :: real where
  "mesh_rotation_x = - pi / 2"

definition mesh_offset :: v3 where
  "mesh_offset = \<lparr>v3x = 0, v3y = -1, v3z = 0\<rparr>"

text \<open>\<open>modelMatrix * vec4(position, 1.0)\<close>: the rotation about x, then the translation.\<close>

definition model_point :: "v3 \<Rightarrow> v3" where
  "model_point p =
     \<lparr>v3x = v3x p + v3x mesh_offset,
      v3y = cos mesh_rotation_x * v3y p - sin mesh_rotation_x * v3z p + v3y mesh_offset,
      v3z = sin mesh_rotation_x * v3y p + cos mesh_rotation_x * v3z p + v3z mesh_offset\<rparr>"

text \<open>The displaced surface: each vertex's model position after the vertex shader.\<close>

definition wave_surface :: "uniforms \<Rightarrow> v3 list" where
  "wave_surface u = map (\<lambda>(p, uv). vertex_position u (model_point p)) wave_plane"

section \<open>Lemmas\<close>

lemma model_point_eq: "model_point p = \<lparr>v3x = v3x p, v3y = v3z p - 1, v3z = - v3y p\<rparr>"
  by (simp add: model_point_def mesh_rotation_x_def mesh_offset_def)

lemma plane_geometry_mem:
  "v \<in> set (plane_geometry width height gridX gridY) \<longleftrightarrow>
   (\<exists>ix \<le> gridX. \<exists>iy \<le> gridY. v = plane_vertex width height gridX gridY ix iy)"
  unfolding plane_geometry_def
  by (auto simp del: upt_Suc simp: atLeast0LessThan lessThan_Suc_atMost image_iff)

lemma plane_geometry_length:
  "length (plane_geometry width height gridX gridY) = Suc gridX * Suc gridY"
  by (simp add: plane_geometry_def length_concat comp_def sum_list_triv)

lemma wave_plane_vertex:
  assumes "(p, uv) \<in> set wave_plane"
  shows "v3y (model_point p) = -1 \<and>
         \<bar>v3x (model_point p)\<bar> \<le> 5 \<and> \<bar>v3z (model_point p)\<bar> \<le> 5 \<and>
         0 \<le> fst uv \<and> fst uv \<le> 1 \<and> 0 \<le> snd uv \<and> snd uv \<le> 1"
proof -
  obtain ix iy where ix: "ix \<le> 256" and iy: "iy \<le> 256"
    and v: "(p, uv) = plane_vertex 10 10 256 256 ix iy"
    using assms by (auto simp: wave_plane_def plane_geometry_mem)
  have rx: "real ix \<le> 256" and ry: "real iy \<le> 256" using ix iy by simp_all
  have "v3y (model_point p) = -1 \<and> \<bar>v3x (model_point p)\<bar> \<le> 5 \<and> \<bar>v3z (model_point p)\<bar> \<le> 5"
    using v rx ry by (auto simp: plane_vertex_def model_point_eq abs_le_iff)
  moreover have "0 \<le> fst uv \<and> fst uv \<le> 1 \<and> 0 \<le> snd uv \<and> snd uv \<le> 1"
    using v rx ry by (auto simp: plane_vertex_def)
  ultimately show ?thesis by blast
qed

section \<open>Properties of the scene geometry\<close>

text \<open>
  C29 (bounds).  The mesh has \<open>257 * 257\<close> vertices, and before displacement every
  one of them lies on the floor \<open>y = -1\<close> of model space inside the square
  \<open>[-5, 5] * [-5, 5]\<close>, with uv coordinates in \<open>[0, 1]\<close>: the rotation by \<open>-pi/2\<close>
  lays the xy plane flat, and the vertex shader then displaces it along y only.
\<close>

theorem plane_on_floor:
  assumes "(p, uv) \<in> set wave_plane"
  shows "length wave_plane = 66049 \<and> v3y (model_point p) = -1 \<and>
         \<bar>v3x (model_point p)\<bar> \<le> 5 \<and> \<bar>v3z (model_point p)\<bar> \<le> 5 \<and>
         0 \<le> fst uv \<and> fst uv \<le> 1 \<and> 0 \<le> snd uv \<and> snd uv \<le> 1"
  using wave_plane_vertex [OF assms] by (simp add: wave_plane_def plane_geometry_length)

theorem plane_on_floor_witness:
  "(plane_vertex 10 10 256 256 0 0) \<in> set wave_plane \<and>
   v3y (model_point (fst (plane_vertex 10 10 256 256 0 0))) = -1 \<and>
   \<bar>v3x (model_point (fst (plane_vertex 10 10 256 256 0 0)))\<bar> \<le> 5"
proof -
  have mem: "(fst (plane_vertex 10 10 256 256 0 0), snd (plane_vertex 10 10 256 256 0 0)) \<in> set wave_plane"
    by (simp only: prod.collapse wave_plane_def plane_geometry_mem) blast
  show ?thesis using plane_on_floor [OF mem] mem by simp
qed

text \<open>
  C30 (functional).  Neither shader reads \<open>uMetalness\<close> or \<open>uRoughness\<close>: the
  displaced position and the fragment colour are the same whatever their values, so
  the roughness the render loop interpolates and the metalness it copies have no
  effect on the picture.
\<close>

theorem shading_ignores_material:
  "vertex_position (u\<lparr>uMetalness := a, uRoughness := b\<rparr>) p = vertex_position u p \<and>
   fragment_color (u\<lparr>uMetalness := a, uRoughness := b\<rparr>) e x y = fragment_color u e x y"
  by (simp add: vertex_position_def vertex_elevation_def fragment_color_def)

text \<open>
  C31 (bounds).  Every vertex of the displaced surface stays over the mesh's square
  and within \<open>0.2 + 11.88 * |uElevation|\<close> of the floor height -1: the product of
  sines contributes at most 0.2 and the noise at most 11.88 times the elevation
  uniform.
\<close>

theorem surface_height_bound:
  assumes "v \<in> set (wave_surface u)"
  shows "\<bar>v3y v + 1\<bar> \<le> 0.2 + 11.88 * \<bar>uElevation u\<bar> \<and> \<bar>v3x v\<bar> \<le> 5 \<and> \<bar>v3z v\<bar> \<le> 5"
proof -
  obtain p uv where mem: "(p, uv) \<in> set wave_plane" and v: "v = vertex_position u (model_point p)"
    using assms by (auto simp: wave_surface_def)
  have "v3y v = v3y (model_point p) + vertex_elevation u (model_point p)"
    "v3x v = v3x (model_point p)" "v3z v = v3z (model_point p)"
    by (simp_all add: v vertex_position_def)
  then show ?thesis
    using wave_plane_vertex [OF mem] vertex_elevation_abs_le [of u "model_point p"] by simp
qed

theorem surface_height_bound_witness:
  "vertex_position initial_uniforms (model_point (fst (plane_vertex 10 10 256 256 0 0)))
     \<in> set (wave_surface initial_uniforms) \<and>
   \<bar>v3y (vertex_position initial_uniforms (model_point (fst (plane_vertex 10 10 256 256 0 0)))) + 1\<bar>
     \<le> 0.2 + 11.88 * \<bar>uElevation initial_uniforms\<bar>"
proof -
  have mem0: "(fst (plane_vertex 10 10 256 256 0 0), snd (plane_vertex 10 10 256 256 0 0)) \<in> set wave_plane"
    by (simp only: prod.collapse wave_plane_def plane_geometry_mem) blast
  have mem: "vertex_position initial_uniforms (model_point (fst (plane_vertex 10 10 256 256 0 0)))
     \<in> set (wave_surface initial_uniforms)"
    unfolding wave_surface_def set_map by (rule image_eqI [OF _ mem0]) (simp add: split_beta)
  show ?thesis using surface_height_bound [OF mem] mem by simp
qed

end
