(* ===== verification/Material.thy ===== *)
theory Material
  imports Shader
begin

text \<open>
  The link between \<open>WaveMaterial\<close> and its two GLSL programs in
  \<open>src/components/WaveScene.tsx\<close>: the uniforms and varyings each program declares
  (\<open>uniform float uTime;\<close> and so on), the \<open><shaderMaterial>\<close> props, and the
  uniforms object of \<open>useMemo\<close> as the list of JavaScript values three.js uploads.
  Linking is modelled from WebGL: a uniform a program declares is set from the
  material's value of the same name, whose JavaScript type fixes the GLSL type it is
  uploaded as (number: \<open>float\<close>, \<open>Vector2\<close>: \<open>vec2\<close>, \<open>Color\<close>: \<open>vec3\<close>), and every
  varying the fragment program reads must be a varying of the vertex program with the
  same type.
\<close>

section \<open>Declarations and the material\<close>

datatype glsl_type = GFloat | GVec2 | GVec3

datatype uniform_value = UNum real | UVector2 "real vec2" | UColor rgb

record shader_program =
  prog_uniforms :: "(string \<times> glsl_type) list"
  prog_varyings :: "(string \<times> glsl_type) list"

datatype side = FrontSide | BackSide | DoubleSide

record shader_material =
  vertexShader :: shader_program
  fragmentShader :: shader_program
  mat_values :: "(string \<times> uniform_value) list"
  wireframe :: bool
  mat_side :: side
  transparent :: bool

definition vertex_program :: shader_program where
  "vertex_program =
     \<lparr>prog_uniforms = [(''uTime'', GFloat), (''uSpeed'', GFloat), (''uElevation'', GFloat),
                       (''uFrequency'', GVec2)],
      prog_varyings = [(''vUv'', GVec2), (''vElevation'', GFloat)]\<rparr>"

definition fragment_program :: shader_program where
  "fragment_program =
     \<lparr>prog_uniforms = [(''uColor'', GVec3), (''uMetalness'', GFloat), (''uRoughness'', GFloat)],
      prog_varyings = [(''vElevation'', GFloat), (''vUv'', GVec2)]\<rparr>"

text \<open>The uniforms object \<open>{ uTime: { value: 0 }, ... }\<close> holding the values of \<open>u\<close>.\<close>

definition material_values :: "uniforms \<Rightarrow> (string \<times> uniform_value) list" where
  "material_values u =
     [(''uTime'', UNum (uTime u)), (''uSpeed'', UNum (uSpeed u)), (''uElevation'', UNum (uElevation u)),
      (''uFrequency'', UVector2 (uFrequency u)), (''uColor'', UColor (uColor u)),
      (''uMetalness'', UNum (uMetalness u)), (''uRoughness'', UNum (uRoughness u))]"

definition wave_material :: "uniforms \<Rightarrow> shader_material" where
  "wave_material u =
     \<lparr>vertexShader = vertex_program, fragmentShader = fragment_program,
      mat_values = material_values u, wireframe = False, mat_side = DoubleSide,
      transparent = True\<rparr>"

section \<open>Linking\<close>

fun uniform_type :: "uniform_value \<Rightarrow> glsl_type" where
  "uniform_type (UNum r) = GFloat"
| "uniform_type (UVector2 v) = GVec2"
| "uniform_type (UColor c) = GVec3"

definition uniform_types :: "shader_material \<Rightarrow> (string \<times> glsl_type) list" where
  "uniform_types m = map (\<lambda>(n, v). (n, uniform_type v)) (mat_values m)"

text \<open>
  The program links and every declared uniform receives a value of its type; a
  uniform the material does not supply would keep the default zero.
\<close>

definition program_links :: "shader_material \<Rightarrow> bool" where
  "program_links m \<longleftrightarrow>
     list_all (\<lambda>(n, t). map_of (uniform_types m) n = Some t)
       (prog_uniforms (vertexShader m) @ prog_uniforms (fragmentShader m)) \<and>
     list_all (\<lambda>(n, t). map_of (prog_varyings (vertexShader m)) n = Some t)
       (prog_varyings (fragmentShader m))"

section \<open>Properties of the material\<close>

text \<open>
  C32 (type).  Whatever values the render loop has written, \<open>WaveMaterial\<close> links:
  every uniform either program declares is supplied with its declared GLSL type, the
  fragment program's varyings are the vertex program's, and the material supplies
  no uniform that no program declares.
\<close>

theorem wave_material_links:
  "program_links (wave_material u) \<and>
   set (map fst (mat_values (wave_material u))) =
     set (map fst (prog_uniforms vertex_program @ prog_uniforms fragment_program))"
  by (simp add: program_links_def wave_material_def uniform_types_def material_values_def
      vertex_program_def fragment_program_def)

end
