(* ===== verification/Page_Frames.thy ===== *)
theory Page_Frames
  imports App_State
begin

text \<open>
  The App and the render loop together: display frames as events of the page
  (\<open>frames_events\<close>, a display refreshing every \<open>dt\<close> seconds) after an analysis
  has settled.  The frames touch only the mesh and the heap, and from any reachable
  state whose configuration came from a successful analysis they are the abstract
  interpolation of \<open>Render_Loop\<close>: every field's gap to the App's configuration
  shrinks by \<open>1 - 2 * dt\<close> per frame.
\<close>

definition frames_events :: "real \<Rightarrow> nat \<Rightarrow> event list" where
  "frames_events dt n = map (\<lambda>(t, d). Frame t d) (clock_frames dt n)"

text \<open>A calm thought answered with a slow configuration, as a run of the page.\<close>

definition calm_config :: wave_value where
  "calm_config =
     \<lparr>speed = 0.1, elevation = 0.3, frequency = \<lparr>vx = 1, vy = 1\<rparr>, color = ''#0000ff'',
      roughness = 0.9, metalness = 0.1\<rparr>"

definition calm_run :: "event list" where
  "calm_run =
     [Attach, Type ''I feel calm'', Submit,
      Settle (\<lambda>_. Api_Returns (Some ''ok'')) (\<lambda>_. Some (json_of_response ''Still water.'' calm_config))]"

section \<open>Lemmas\<close>

lemma run_events_frames:
  assumes "\<forall>(t, d) \<in> set fs. 0 \<le> d"
  shows "run_events pc (map (\<lambda>(t, d). Frame t d) fs) s =
         Some (s\<lparr>mesh := fst (run_frames pc (waveConfig (app s)) fs (mesh s) (heap s)),
                 heap := snd (run_frames pc (waveConfig (app s)) fs (mesh s) (heap s))\<rparr>)"
  using assms
proof (induction fs arbitrary: s)
  case Nil
  then show ?case by simp
next
  case (Cons fr fs)
  obtain t d where fr: "fr = (t, d)" by (cases fr)
  with Cons.prems have "0 \<le> d" by simp
  with Cons fr show ?case by (simp add: sys_frame_def)
qed

lemma reachable_unaliased:
  assumes "reachable pc s" and "waveConfig (app s) \<noteq> initial_obj"
  shows "mesh_wf (mesh s) (heap s)"
    and "frequency (current_config (mesh s)) \<noteq> frequency (waveConfig (app s))"
  using reachable_sys_inv [OF assms(1)] assms(2) by (auto simp: sys_inv_def mesh_wf_def)

lemma calm_run_end:
  "\<exists>s. run_events pc calm_run sys_init = Some s \<and> material_attached (mesh s) \<and>
       waveConfig (app s) \<noteq> initial_obj \<and> speed (waveConfig (app s)) = 0.1 \<and>
       speed (current_config (mesh s)) = 0.5"
  by (simp add: calm_run_def sys_init_def app_init_def initial_obj_def initial_heap_def
      wave_mesh_mount_def sys_attach_def attach_material_def ui_type_def handle_submit_def
      submit_guard_def js_trim_def is_js_space_def complete_analysis_def response_object_def
      analyze_core_def json_of_response_def obj_lookup_def typed_config_def calm_config_def
      thought_settled_def alloc_def map_frequency_def INITIAL_WAVE_CONFIG_def)

section \<open>Properties of the page's frames\<close>

text \<open>
  C33 (refinement).  From a reachable state whose configuration came from a
  successful analysis, with the material attached, \<open>n\<close> display frames of the page
  at interval \<open>dt \<ge> 0\<close> leave the App, the Interface and the outstanding call as they
  were, and multiply every interpolated field's gap to the App's configuration by
  \<open>(1 - 2 * dt) ^ n\<close>.
\<close>

theorem page_frames_interpolate:
  assumes "reachable pc s" and "material_attached (mesh s)"
    and "waveConfig (app s) \<noteq> initial_obj" and "0 \<le> dt" and "f \<in> set live_fields"
  shows "\<exists>s'. run_events pc (frames_events dt n) s = Some s' \<and>
              app s' = app s \<and> ui s' = ui s \<and> pending s' = pending s \<and>
              f (target_of pc (heap s) (waveConfig (app s))) - f (live_of (mesh s') (heap s')) =
              (1 - 2 * dt) ^ n * (f (target_of pc (heap s) (waveConfig (app s))) - f (live_of (mesh s) (heap s)))"
proof -
  have ds: "\<forall>(t, d) \<in> set (clock_frames dt n). 0 \<le> d"
    using clock_frames_props(2) [of dt n] assms(4) by auto
  have gap: "f (target_of pc (heap s) (waveConfig (app s))) -
      f (live_of (fst (run_frames pc (waveConfig (app s)) (clock_frames dt n) (mesh s) (heap s)))
                 (snd (run_frames pc (waveConfig (app s)) (clock_frames dt n) (mesh s) (heap s)))) =
      (1 - 2 * dt) ^ n * (f (target_of pc (heap s) (waveConfig (app s))) - f (live_of (mesh s) (heap s)))"
    by (rule clock_frames_gap [OF assms(2) reachable_unaliased [OF assms(1,3)] assms(5)])
  show ?thesis
    using run_events_frames [OF ds, of pc s] gap by (simp add: frames_events_def)
qed

theorem page_frames_interpolate_witness:
  "\<exists>s s'. run_events (\<lambda>_. color_white) calm_run sys_init = Some s \<and>
          run_events (\<lambda>_. color_white) (frames_events (1 / 60) 2) s = Some s' \<and>
          speed (target_of (\<lambda>_. color_white) (heap s) (waveConfig (app s))) -
            speed (live_of (mesh s') (heap s')) = (1 - 2 * (1 / 60)) ^ 2 * (0.1 - 0.5)"
proof -
  obtain s where run: "run_events (\<lambda>_. color_white) calm_run sys_init = Some s"
    and att: "material_attached (mesh s)" and w: "waveConfig (app s) \<noteq> initial_obj"
    and sp: "speed (waveConfig (app s)) = 0.1" and cur: "speed (current_config (mesh s)) = 0.5"
    using calm_run_end by blast
  have r: "reachable (\<lambda>_. color_white) s" by (rule run_events_reachable [OF run reachable.init])
  obtain s' where s': "run_events (\<lambda>_. color_white) (frames_events (1 / 60) 2) s = Some s'"
    and g: "speed (target_of (\<lambda>_. color_white) (heap s) (waveConfig (app s))) - speed (live_of (mesh s') (heap s')) =
            (1 - 2 * (1 / 60)) ^ 2 * (speed (target_of (\<lambda>_. color_white) (heap s) (waveConfig (app s))) -
              speed (live_of (mesh s) (heap s)))"
    using page_frames_interpolate [OF r att w, of "1 / 60" speed 2] by (auto simp: live_fields_def)
  show ?thesis using run s' g sp cur by (auto simp: target_of_def live_of_def)
qed



end
