(* ===== verification/Scene_Graph.thy ===== *)
theory Scene_Graph
  imports Scene
begin

text \<open>
  The scene graph of \<open>WaveScene\<close> (\<open>src/components/WaveScene.tsx\<close>, lines 202 to
  227) as data: the \<open>PerspectiveCamera\<close>, the \<open>OrbitControls\<close> settings, the
  background colour, the \<open>Stars\<close> settings, the two lights and the wave mesh.  The
  drawing of stars and lights is three.js's and is not modelled.  \<open>OrbitControls\<close>
  is modelled for rotation only, from three.js's definition: the camera moves on the
  sphere about the target \<open>(0, 0, 0)\<close> whose radius is the initial distance (zoom
  is disabled), at the requested azimuth and at the requested polar angle clamped to
  \<open>[minPolarAngle, maxPolarAngle]\<close>, with \<open>minPolarAngle = 0\<close> by default.
\<close>

section \<open>The scene\<close>

record stars_props =
  stars_radius :: real
  stars_depth :: real
  stars_count :: nat
  stars_factor :: real
  stars_saturation :: real
  stars_fade :: bool
  stars_speed :: real

record scene_setup =
  camera_position :: v3
  camera_fov :: real
  enableZoom :: bool
  maxPolarAngle :: real
  autoRotate :: bool
  autoRotateSpeed :: real
  background :: string
  stars :: stars_props
  ambient_intensity :: real
  point_position :: v3
  point_intensity :: real

definition wave_scene :: scene_setup where
  "wave_scene =
     \<lparr>camera_position = \<lparr>v3x = 0, v3y = 4, v3z = 6\<rparr>, camera_fov = 45,
      enableZoom = False, maxPolarAngle = pi / 2 - 0.1, autoRotate = True, autoRotateSpeed = 0.5,
      background = ''#050505'',
      stars = \<lparr>stars_radius = 100, stars_depth = 50, stars_count = 5000, stars_factor = 4,
               stars_saturation = 0, stars_fade = True, stars_speed = 1\<rparr>,
      ambient_intensity = 0.5, point_position = \<lparr>v3x = 10, v3y = 10, v3z = 10\<rparr>,
      point_intensity = 1\<rparr>"

section \<open>Orbiting\<close>

definition orbit_radius :: "scene_setup \<Rightarrow> real" where
  "orbit_radius sc =
     sqrt ((v3x (camera_position sc))\<^sup>2 + (v3y (camera_position sc))\<^sup>2 + (v3z (camera_position sc))\<^sup>2)"

text \<open>
  The camera position for azimuth \<open>theta\<close> and requested polar angle \<open>phi\<close>
  (three.js's \<open>Spherical\<close>: y is \<open>r cos phi\<close>).
\<close>

definition orbit_camera :: "scene_setup \<Rightarrow> real \<Rightarrow> real \<Rightarrow> v3" where
  "orbit_camera sc theta phi =
     (let r = orbit_radius sc; p = max 0 (min (maxPolarAngle sc) phi)
      in \<lparr>v3x = r * sin p * sin theta, v3y = r * cos p, v3z = r * sin p * cos theta\<rparr>)"

section \<open>Lemmas\<close>

lemma wave_scene_radius: "orbit_radius wave_scene = sqrt 52"
  by (simp add: orbit_radius_def wave_scene_def)

lemma cos_polar_lower:
  assumes "0 \<le> p" and "p \<le> pi / 2 - 0.1"
  shows "sin 0.1 \<le> cos p"
proof -
  have "cos (pi / 2 - 0.1) \<le> cos p"
    using assms by (intro cos_monotone_0_pi_le) (use pi_ge_two in auto)
  then show ?thesis by (simp add: cos_diff)
qed

section \<open>Properties of the scene\<close>

text \<open>
  C35 (safety).  However the user or the auto-rotation turns the orbit controls, the
  camera stays at least \<open>sqrt 52 * sin 0.1\<close> (about 0.72) above the orbit target,
  hence more than 1 above the floor \<open>y = -1\<close> of the undisplaced mesh: the
  \<open>maxPolarAngle\<close> of \<open>pi/2 - 0.1\<close> keeps it above the horizon.
\<close>

theorem orbit_camera_above_floor:
  "sqrt 52 * sin 0.1 \<le> v3y (orbit_camera wave_scene theta phi) \<and>
   0 < v3y (orbit_camera wave_scene theta phi) \<and> v3y (orbit_camera wave_scene theta phi) - (-1) > 1"
proof -
  define p where "p = max 0 (min (pi / 2 - 0.1) phi)"
  have p: "0 \<le> p" "p \<le> pi / 2 - 0.1"
    using pi_ge_two by (auto simp: p_def)
  have y: "v3y (orbit_camera wave_scene theta phi) = sqrt 52 * cos p"
    by (simp add: orbit_camera_def wave_scene_radius Let_def p_def) (simp add: wave_scene_def)
  have c: "sin 0.1 \<le> cos p" by (rule cos_polar_lower [OF p])
  have "0 < sin (0.1::real)" using pi_ge_two by (intro sin_gt_zero) auto
  then have "0 < sqrt 52 * sin (0.1::real)" by simp
  moreover have "sqrt 52 * sin 0.1 \<le> sqrt 52 * cos p" using c by (simp add: mult_left_mono)
  ultimately show ?thesis using y by linarith
qed

end
