(* ===== verification/Phase.thy ===== *)
theory Phase
  imports Shader
begin

text \<open>
  The time argument of the vertex shader of \<open>src/components/WaveScene.tsx\<close>: both
  the product of sines and the noise read time only as \<open>uTime * uSpeed\<close>, where
  \<open>uTime\<close> is the clock's total elapsed time (written each frame) and \<open>uSpeed\<close> the
  interpolated speed.  The phase is therefore not the integral of the speed: while the
  speed moves towards a new target, the phase advances at \<open>speed + 2 * t * (target -
  speed)\<close> per second at elapsed time \<open>t\<close>, faster the longer the page has been open.
\<close>

definition shader_phase :: "uniforms \<Rightarrow> real" where
  "shader_phase u = uTime u * uSpeed u"

text \<open>A mesh ten minutes after mount, its uniforms written by the last frame.\<close>

definition late_mesh :: mesh_state where
  "late_mesh = demo_mesh\<lparr>mat_uniforms := initial_uniforms\<lparr>uTime := 600, uSpeed := 0.5\<rparr>\<rparr>"

section \<open>Lemmas\<close>

text \<open>The vertex shader sees time and speed only through the phase.\<close>

lemma vertex_elevation_phase:
  "shader_phase u = shader_phase u' \<Longrightarrow> uFrequency u = uFrequency u' \<Longrightarrow>
   uElevation u = uElevation u' \<Longrightarrow> vertex_elevation u mp = vertex_elevation u' mp"
  by (simp add: vertex_elevation_def shader_phase_def mult.assoc)

lemma wave_frame_speed_uniform:
  "material_attached m \<Longrightarrow>
   uSpeed (mat_uniforms (fst (wave_frame pc t d cfg m h))) =
     lerp (speed (current_config m)) (speed cfg) (2 * d) \<and>
   uTime (mat_uniforms (fst (wave_frame pc t d cfg m h))) = t"
  by (simp add: wave_frame_uniforms wave_frame_cur lerp_factor_def)

section \<open>Properties of the phase\<close>

text \<open>
  C36 (functional).  After a frame at elapsed time \<open>t\<close>, the next frame, \<open>d\<close> seconds
  later, advances the phase by \<open>d * uSpeed + 2 * t * d * (target - speed)\<close>: besides the
  speed term, a term proportional to the elapsed time \<open>t\<close>.  Ten minutes after mount,
  a transition from speed 0.5 to 1 advances the phase by about 10 radians in one
  1/60 s frame instead of 0.008: the waves race during every transition.
\<close>

theorem frame_phase_advance:
  assumes "material_attached m" and "uTime (mat_uniforms m) = t"
    and "uSpeed (mat_uniforms m) = speed (current_config m)"
  shows "shader_phase (mat_uniforms (fst (wave_frame pc (t + d) d cfg m h))) - shader_phase (mat_uniforms m) =
         d * uSpeed (mat_uniforms (fst (wave_frame pc (t + d) d cfg m h))) +
         2 * t * d * (speed cfg - speed (current_config m))"
proof -
  let ?u = "mat_uniforms (fst (wave_frame pc (t + d) d cfg m h))"
  let ?s = "speed (current_config m)"
  have s1: "uSpeed ?u = ?s + (speed cfg - ?s) * (2 * d)" and t1: "uTime ?u = t + d"
    using wave_frame_speed_uniform [OF assms(1), of pc "t + d" d cfg h] by (simp_all add: lerp_step_form)
  have "shader_phase ?u - shader_phase (mat_uniforms m) = (t + d) * uSpeed ?u - t * ?s"
    using assms(2,3) t1 by (simp add: shader_phase_def)
  also have "\<dots> = d * uSpeed ?u + t * (uSpeed ?u - ?s)" by (simp add: algebra_simps)
  also have "\<dots> = d * uSpeed ?u + 2 * t * d * (speed cfg - ?s)"
    by (simp only: s1) (simp add: algebra_simps)
  finally show ?thesis .
qed

theorem frame_phase_advance_witness:
  "shader_phase (mat_uniforms (fst (wave_frame demo_parse (600 + 1 / 60) (1 / 60) demo_target late_mesh demo_heap))) -
     shader_phase (mat_uniforms late_mesh) > 10"
proof -
  have "shader_phase (mat_uniforms (fst (wave_frame demo_parse (600 + 1 / 60) (1 / 60) demo_target late_mesh demo_heap))) -
          shader_phase (mat_uniforms late_mesh) =
        1 / 60 * uSpeed (mat_uniforms (fst (wave_frame demo_parse (600 + 1 / 60) (1 / 60) demo_target late_mesh demo_heap))) +
        2 * 600 * (1 / 60) * (speed demo_target - speed (current_config late_mesh))"
    by (rule frame_phase_advance) (simp_all add: late_mesh_def demo_defs)
  moreover have "0 < uSpeed (mat_uniforms (fst (wave_frame demo_parse (600 + 1 / 60) (1 / 60) demo_target late_mesh demo_heap)))"
    by (simp add: late_mesh_def demo_defs wave_frame_def Let_def lerp_def lerp_factor_def)
  moreover have "speed demo_target - speed (current_config late_mesh) = 0.5"
    by (simp add: late_mesh_def demo_defs)
  ultimately show ?thesis by simp
qed

end
