(* ===== verification/Prompt.thy ===== *)
theory Prompt
  imports Gemini_Service
begin

text \<open>
  How the user's text sits in the prompt that \<open>analyzeThought\<close> sends
  (\<open>src/services/geminiService.ts\<close>, lines 33 to 40): the input is spliced between
  double quotes with no escaping.  A reader of the prompt that takes the quoted span
  as the user's text (\<open>quoted_input\<close>) recovers the input exactly when the input
  contains no double quote; otherwise the user's text ends the quotation early and
  the rest of it reads as part of the instructions.
\<close>

definition prompt_prefix :: string where
  "prompt_prefix = ''Analyze the following user input: \"''"

definition quoted_input :: "string \<Rightarrow> string" where
  "quoted_input p = takeWhile (\<lambda>c. c \<noteq> CHR 0x22) (drop (length prompt_prefix) p)"

section \<open>Lemmas\<close>

lemma thought_prompt_split:
  "\<exists>rest. thought_prompt x = prompt_prefix @ x @ CHR 0x22 # rest"
  by (simp add: thought_prompt_def prompt_prefix_def)

lemma takeWhile_eq_self_iff: "takeWhile P xs = xs \<longleftrightarrow> (\<forall>x \<in> set xs. P x)"
  by (induction xs) auto

section \<open>Properties of the prompt\<close>

text \<open>
  C37 (roundtrip).  The quoted span of the prompt is the user's input exactly when
  the input has no double quote: the template does not escape the input.
\<close>

theorem prompt_quoted_roundtrip:
  "quoted_input (thought_prompt x) = x \<longleftrightarrow> CHR 0x22 \<notin> set x"
proof -
  obtain rest where p: "thought_prompt x = prompt_prefix @ x @ CHR 0x22 # rest"
    using thought_prompt_split by blast
  have "quoted_input (thought_prompt x) = takeWhile (\<lambda>c. c \<noteq> CHR 0x22) (x @ CHR 0x22 # rest)"
    by (simp add: quoted_input_def p)
  also have "\<dots> = (if \<forall>c \<in> set x. c \<noteq> CHR 0x22 then x else takeWhile (\<lambda>c. c \<noteq> CHR 0x22) x)"
    by (auto simp add: takeWhile_append)
  finally have q: "quoted_input (thought_prompt x) =
      (if \<forall>c \<in> set x. c \<noteq> CHR 0x22 then x else takeWhile (\<lambda>c. c \<noteq> CHR 0x22) x)" .
  show ?thesis
  proof (cases "CHR 0x22 \<in> set x")
    case True
    then have "\<not> (\<forall>c \<in> set x. c \<noteq> CHR 0x22)" by blast
    with True show ?thesis by (simp only: q if_False takeWhile_eq_self_iff) blast
  next
    case False
    then have "\<forall>c \<in> set x. c \<noteq> CHR 0x22" by blast
    with False show ?thesis by (simp only: q if_True) simp
  qed
qed

theorem prompt_quoted_roundtrip_witness:
  "quoted_input (thought_prompt ''calm sea'') = ''calm sea'' \<and>
   quoted_input (thought_prompt ''say \"hi\"'') \<noteq> ''say \"hi\"''"
  using prompt_quoted_roundtrip [of "''calm sea''"] prompt_quoted_roundtrip [of "''say \"hi\"''"] by simp

end
