(* ===== verification/Spec2Isabelle.thy ===== *)
theory Spec2Isabelle
  imports Interface_View Render_Settle Scene Material Page_Frames Scene_Graph Phase Prompt
begin

text \<open>
  \<^bold>\<open>NeuroWave: a verification library.\<close>
  The program is a React page (\<open>src/App.tsx\<close>) with two children: a form
  (\<open>src/components/Interface.tsx\<close>) where the user submits a thought, and a
  three.js scene (\<open>src/components/WaveScene.tsx\<close>) whose \<open>WaveMesh\<close> animates a
  displaced plane.  A submission calls \<open>analyzeThought\<close>
  (\<open>src/services/geminiService.ts\<close>), which asks a generative model for a reply and
  a \<open>WaveConfig\<close> (\<open>src/types.ts\<close>) and falls back to a fixed reply with
  \<open>INITIAL_WAVE_CONFIG\<close> on any error.  The App stores the configuration; every
  display frame, \<open>WaveMesh\<close>'s \<open>useFrame\<close> callback moves its private live copy
  towards it and writes shader uniforms.

  \<^bold>\<open>Theories.\<close>
  \<^item> \<open>Wave_Prelude\<close>: \<open>lerp\<close> (three.js's \<open>MathUtils.lerp\<close>) with its gap,
    no-overshoot, overshoot and geometric-convergence lemmas (collection
    \<open>lerp_simps\<close>); thrown errors as \<open>'e + 'a\<close> with \<open>res_bind\<close>; the list heap
    (\<open>alloc\<close>, read with \<open>!\<close>, written with list update).
  \<^item> \<open>Wave_Types\<close>: \<open>WaveConfig\<close> as the record \<open>wave_config\<close>, parametrised by
    its number, frequency and colour types, so that the typed value, the object whose
    \<open>frequency\<close> is a heap reference, the live view and the untyped object built from
    JSON share field names; \<open>INITIAL_WAVE_CONFIG\<close>; \<open>deref\<close> reads an object
    through the heap.
  \<^item> \<open>Render_Loop\<close> (\<open>WaveScene.tsx\<close>, \<open>WaveMaterial\<close> and \<open>WaveMesh\<close>):
    \<open>uniforms\<close>/\<open>initial_uniforms\<close>, \<open>mesh_state\<close> (material ref,
    \<open>currentConfig\<close>, uniforms), \<open>wave_mesh_mount\<close> (\<open>useRef({ ...config })\<close>,
    which copies the frequency reference), \<open>lerp_factor\<close> and \<open>wave_frame\<close>, the
    callback statement by statement, and \<open>run_frames\<close>.  The abstract specification
    is \<open>interp_step\<close> over \<open>live_of\<close>/\<open>target_of\<close>.  Lemmas: one frame implements
    \<open>interp_step\<close> when the live and target frequency objects differ (C1 lifts it to
    runs); bounds for \<open>delta \<le> 1/2\<close> (C2) and overshoot beyond (C3); convergence
    (C4) and the spec's 120-frame scenario (C6); the aliased case freezes (C5); the
    uniforms (C7, C8); nothing happens before the material is attached (C9).
  \<^item> \<open>Gemini_Service\<close>: the response schema, the request and prompt, and
    \<open>analyzeThought\<close>'s \<open>try\<close> block (\<open>analyze_core\<close>) over JavaScript values
    \<open>jsval\<close> with property access that throws on \<open>undefined\<close>/\<open>null\<close>; the model
    call and \<open>JSON.parse\<close> are parameters \<open>api\<close> and \<open>parse\<close>.  Lemmas: exactly
    which paths fall back (C10), the schema's JSON round-trips (C11), schema-conforming
    answers are well typed (C12), partial answers pass through with \<open>undefined\<close>
    fields (C13).
  \<^item> \<open>App_State\<close> (\<open>App.tsx\<close>, \<open>Interface.tsx\<close>): the App and Interface
    state, \<open>handle_submit\<close> (the guard and the part of \<open>handleThoughtSubmit\<close>
    before its \<open>await\<close>), \<open>complete_analysis\<close> (the continuation with its
    \<open>catch\<close> and \<open>finally\<close>, the input reset and the panel effect), and the page as
    the step relation \<open>sys_step\<close> over \<open>sys_state\<close> (App, Interface, mesh, heap,
    outstanding request) with \<open>reachable\<close> states; the same machine as the event
    function \<open>sys_event\<close> for concrete runs.  The invariant \<open>sys_inv\<close> holds in every
    reachable state (rule induction, one lemma per event); from it: one request at a
    time (C14); the submit guard (C15); the fallback's effect on the page (C16); a
    successful answer replaces \<open>waveConfig\<close> wholesale by a fresh object and leaves
    every existing object alone (C17).
  \<^item> \<open>Shader\<close> (the GLSL strings \<open>vertexShader\<close> and \<open>fragmentShader\<close> of
    \<open>WaveScene.tsx\<close>): the GLSL built-ins over the reals (\<open>gl_floor\<close>,
    \<open>gl_fract\<close>, \<open>gl_step\<close>, \<open>gl_mix\<close>, \<open>gl_smoothstep\<close>, \<open>dot3\<close>), the noise
    helpers \<open>mod289\<close>, \<open>permute\<close>, \<open>taylorInvSqrt\<close>, \<open>cnoise\<close> with each
    \<open>vec4\<close> lane written as one lattice corner (\<open>grad_lane\<close>, \<open>normed\<close>,
    \<open>fade\<close>), the vertex displacement (\<open>vertex_elevation\<close>,
    \<open>vertex_position\<close>) and \<open>fragment_color\<close>, which read the uniforms that
    \<open>Render_Loop\<close> writes.  Lemmas: the noise vanishes on the integer lattice
    (C20) and has period 289 (C21); the source pairs corner gradients with the wrong
    offsets, so the noise is discontinuous at cell faces (C22); fragment colour bounds
    (C23); the range of \<open>mod289\<close> (C24).
  \<^item> \<open>Render_Settle\<close>: the frame loop run until the live configuration is
    within \<open>eps\<close> of the target (\<open>settle_frames\<close>, a \<open>partial_function (option)\<close>
    over \<open>wave_frame\<close>, the loop of the spec's "fixed point once within eps").  At
    \<open>dt = 1\<close> it never returns (C25): the unclamped factor makes the values
    oscillate.
  \<^item> \<open>Interface_View\<close> (the JSX of \<open>Interface.tsx\<close>): \<open>interface_render\<close> gives
    the status indicator, the response area (with React's rendering of a value as a
    child, \<open>react_child\<close>), the input and the submit button; \<open>page_view\<close> renders
    it from a page state.  The button is enabled exactly when \<open>handleSubmit\<close> acts
    (C26); while a call is outstanding the page shows \<open>PROCESSING\<close> and blocks input
    (C27); an object-valued reply reaches a state whose render throws (C28).
  \<^item> \<open>Scene\<close> (the mesh of \<open>WaveMesh\<close>): the \<open>planeGeometry\<close> grid
    (\<open>plane_geometry\<close>, three.js's layout), the mesh rotation and position as the
    vertex shader's model matrix (\<open>model_point\<close>) and the displaced surface.  The
    undisplaced mesh lies flat at height -1 (C29); neither shader reads metalness or
    roughness (C30); the displaced surface stays within \<open>0.2 + 11.88 * |uElevation|\<close>
    of the floor (C31, from a bound on \<open>cnoise\<close> proved in \<open>Shader\<close>).
  \<^item> \<open>Material\<close> (\<open>WaveMaterial\<close>): the GLSL uniform and varying declarations of
    both programs, the \<open><shaderMaterial>\<close> props and the uniforms object as the
    values three.js uploads, with WebGL linking (\<open>program_links\<close>).  The material
    links whatever values the render loop has written (C32).
  \<^item> \<open>Page_Frames\<close>: display frames as events of the page.  From any reachable
    state whose configuration came from a successful analysis, \<open>n\<close> frames leave
    App and Interface unchanged and shrink every field's gap by \<open>(1 - 2 * dt) ^ n\<close>
    (C33): the page-level form of C1, using the invariant of \<open>App_State\<close> to show
    the live and target frequency objects differ.  No reachable state is stuck
    loading: an outstanding call can always settle (C34).
  \<^item> \<open>Scene_Graph\<close> (\<open>WaveScene\<close>, lines 202 to 227): the camera, the
    \<open>OrbitControls\<close> settings, background, \<open>Stars\<close> and lights as data, with orbit
    rotation modelled from three.js.  The camera always stays above the floor (C35).
  \<^item> \<open>Phase\<close>: the vertex shader reads time as \<open>uTime * uSpeed\<close>
    (\<open>shader_phase\<close>); during a speed transition the phase advances by a term
    proportional to the elapsed time, so the waves race on a page open for long (C36).
  \<^item> \<open>Prompt\<close>: the user's text sits unescaped between double quotes in the
    prompt; the quoted span is the input exactly when it has no double quote (C37).
  \<^item> This theory: properties of the whole page.  The shallow copy makes the live
    frequency object and \<open>INITIAL_WAVE_CONFIG.frequency\<close> one object in every
    reachable state (C18), so a failure after a success hands the App a corrupted
    "default" (C19, on a concrete eight-event run).

  \<^bold>\<open>Choices.\<close>
  JavaScript numbers and GLSL floats are \<^typ>\<open>real\<close>: rounding and \<open>NaN\<close> are
  not modelled.  No
  loop of the program is unbounded: frames are a list of events, so runs are
  structural recursion and no fuel is needed; convergence is a limit over the number
  of frames.  The one loop that may not end, running frames until the live values are
  within \<open>eps\<close>, is a \<open>partial_function (option)\<close>; its non-termination at
  \<open>dt = 1\<close> is proved (C25), while for \<open>0 < dt < 1\<close> the fields converge (C4).  Library behaviour enters
  as parameters (the colour parser of \<open>new THREE.Color(string)\<close>, the model call and
  \<open>JSON.parse\<close>) or is modelled from the library's definition (\<open>MathUtils.lerp\<close>,
  \<open>Color.lerp\<close>, \<open>PlaneGeometry\<close>, React's rendering of children).
  \<open>String.prototype.trim\<close> is modelled on ASCII white space.

  \<^bold>\<open>Not modelled.\<close>  Single-precision rounding of the shaders, the projection
  to clip space and three.js's \<open>colorspace_fragment\<close>; the drawing of stars and lights
  and \<open>OrbitControls\<close> panning (library behaviour; the scene's settings are data in
  \<open>Scene_Graph\<close>); layout classes and styling of the Interface; \<open>console.error\<close>;
  the Gemini client's use of the API key (\<open>geminiService.ts\<close> lines 4 and 5: the
  client is the parameter \<open>api\<close>); answers whose fields are not numbers and a
  string, at page level (they reach the render loop as \<open>undefined\<close>, which C13
  exhibits); answers whose reply is an object are followed only up to the failing
  render (C28).
\<close>

section \<open>A concrete run of the page\<close>

text \<open>
  A user submits an angry thought; the model answers with a configuration whose
  frequency is \<open>(4, 4)\<close>; one frame of 0.1 s passes; the user submits again and the
  call fails.
\<close>

definition storm_config :: wave_value where
  "storm_config =
     \<lparr>speed = 2, elevation = 1.5, frequency = \<lparr>vx = 4, vy = 4\<rparr>, color = ''#ff0000'',
      roughness = 0.5, metalness = 0.3\<rparr>"

definition demo_run :: "event list" where
  "demo_run =
     [Attach, Type ''I am furious'', Submit,
      Settle (\<lambda>_. Api_Returns (Some ''ok'')) (\<lambda>_. Some (json_of_response ''A storm of thought.'' storm_config)),
      Frame 0.1 0.1, Type ''and now?'', Submit,
      Settle (\<lambda>_. Api_Rejects ''fetch failed'') (\<lambda>_. None)]"

section \<open>Lemmas on the run\<close>

lemma demo_run_end:
  "\<exists>s. run_events pc demo_run sys_init = Some s \<and>
       latestResponse (app s) = JStr fallback_reply \<and> waveConfig (app s) = initial_obj \<and>
       heap s ! 0 = \<lparr>vx = 2.4, vy = 2\<rparr>"
  by (simp add: demo_run_def sys_init_def app_init_def initial_obj_def initial_heap_def
      wave_mesh_mount_def sys_attach_def attach_material_def ui_type_def handle_submit_def
      submit_guard_def js_trim_def is_js_space_def complete_analysis_def response_object_def
      analyze_core_def json_of_response_def obj_lookup_def typed_config_def storm_config_def
      thought_settled_def sys_frame_def wave_frame_def Let_def lerp_def lerp_factor_def
      INITIAL_WAVE_CONFIG_def alloc_def map_frequency_def)

section \<open>Properties of the whole page\<close>

text \<open>
  C18 (invariant).  In every reachable state of the page, the frequency read through
  the \<open>INITIAL_WAVE_CONFIG\<close> object is the live, animated frequency of the mesh:
  the shallow copy \<open>{ ...config }\<close> made the two one object.
\<close>

theorem default_frequency_is_live:
  assumes "reachable pc s"
  shows "frequency (deref (heap s) initial_obj) = frequency (live_of (mesh s) (heap s))"
  using reachable_sys_inv [OF assms]
  by (simp add: sys_inv_def live_of_def initial_obj_def)

theorem default_frequency_is_live_witness:
  "frequency (deref (heap sys_init) initial_obj) = frequency (live_of (mesh sys_init) (heap sys_init))"
  by (rule default_frequency_is_live [OF reachable.init])

text \<open>
  C19 (safety).  The spec says a failed analysis yields the default \<open>WaveConfig\<close>.
  After one successful analysis and a single 0.1 s frame, a failed analysis gives
  the App the \<open>INITIAL_WAVE_CONFIG\<close> object with the fallback reply, but that
  object now reads frequency \<open>(2.4, 2)\<close> instead of \<open>(2, 1.5)\<close>: the default is
  corrupted, and from then on the frequency stays frozen (C5).
\<close>

theorem fallback_after_success_not_default:
  "\<exists>s. reachable pc s \<and> latestResponse (app s) = JStr fallback_reply \<and>
       waveConfig (app s) = initial_obj \<and>
       frequency (deref (heap s) (waveConfig (app s))) = \<lparr>vx = 2.4, vy = 2\<rparr> \<and>
       deref (heap s) (waveConfig (app s)) \<noteq> INITIAL_WAVE_CONFIG"
proof -
  obtain s where run: "run_events pc demo_run sys_init = Some s"
    and r: "latestResponse (app s) = JStr fallback_reply" and w: "waveConfig (app s) = initial_obj"
    and h: "heap s ! 0 = \<lparr>vx = 2.4, vy = 2\<rparr>"
    using demo_run_end by blast
  have "reachable pc s" using run_events_reachable [OF run reachable.init] .
  moreover have "frequency (deref (heap s) (waveConfig (app s))) = \<lparr>vx = 2.4, vy = 2\<rparr>"
    by (simp add: w h initial_obj_def)
  moreover have "deref (heap s) (waveConfig (app s)) \<noteq> INITIAL_WAVE_CONFIG"
  proof
    assume "deref (heap s) (waveConfig (app s)) = INITIAL_WAVE_CONFIG"
    then have "frequency (deref (heap s) (waveConfig (app s))) = frequency INITIAL_WAVE_CONFIG" by simp
    then show False by (simp add: w h initial_obj_def INITIAL_WAVE_CONFIG_def)
  qed
  ultimately show ?thesis using r w by blast
qed

end

